theory Spec2Isabelle
  imports Complex_Main "HOL-Library.Product_Lexorder" "HOL-Library.Multiset"
begin

section \<open>Configuration (simulation/config.py)\<close>

text \<open>
  The integer quantities of the program (budgets, counters, ages, days) are Python
  ints and are modelled as \<open>int\<close>. The baseline death probability is computed in
  double precision (section on double-precision arithmetic below). The other float
  quantities (transmission and travel probabilities, the reserve threshold, the seeded
  fraction) only enter comparisons and truncations, and are modelled as exact reals.
\<close>

definition INITIAL_INFECTED_FRAC :: real where
  "INITIAL_INFECTED_FRAC = 0.10"

definition CONTACTS_RANGE :: "int \<times> int" where
  "CONTACTS_RANGE = (2, 5)"

definition SUPERSPREADER_MULTIPLIER :: int where
  "SUPERSPREADER_MULTIPLIER = 3"

definition MASK_EFFECTIVENESS :: real where
  "MASK_EFFECTIVENESS = 0.5"

definition INFECTIOUS_PERIOD_RANGE :: "int \<times> int" where
  "INFECTIOUS_PERIOD_RANGE = (4, 7)"

definition DAILY_DEATH_MULTIPLIER :: real where
  "DAILY_DEATH_MULTIPLIER = 0.2"

definition BASE_TRAVEL_PROB :: real where
  "BASE_TRAVEL_PROB = 0.05"

definition LOCKDOWN_CONTACT_FACTOR :: real where
  "LOCKDOWN_CONTACT_FACTOR = 0.4"

definition VARIANT_DAY :: int where
  "VARIANT_DAY = 15"

definition VARIANT_VACCINE_EFFECTIVENESS_DROP :: real where
  "VARIANT_VACCINE_EFFECTIVENESS_DROP = 0.3"

definition treatment_effectiveness :: "string \<rightharpoonup> real" where
  "treatment_effectiveness = [''T1'' \<mapsto> 0.75, ''T2'' \<mapsto> 0.6]"

definition vaccine_effectiveness :: "string \<rightharpoonup> real" where
  "vaccine_effectiveness = [''A'' \<mapsto> 0.9, ''B'' \<mapsto> 0.7, ''C'' \<mapsto> 0.5]"

definition VACCINATION_CAMPAIGN_DAY :: int where
  "VACCINATION_CAMPAIGN_DAY = 10"

definition VACCINE_COST :: "string \<rightharpoonup> int" where
  "VACCINE_COST = [''A'' \<mapsto> 3, ''B'' \<mapsto> 2, ''C'' \<mapsto> 1]"

definition TREATMENT_COST :: int where
  "TREATMENT_COST = 1"


section \<open>Double-precision arithmetic\<close>

text \<open>
  A Python float is an IEEE 754 binary64 number. It is modelled by the real number it
  denotes. \<open>round64\<close> rounds a real to the nearest number with a 53-bit significand,
  ties to the even significand, as the conversion of a decimal literal and every float
  operation do; exponent overflow and subnormal numbers (magnitudes outside
  \<open>2^-1022 .. 2^1024\<close>) are not modelled. \<open>scale_up\<close> and \<open>scale_down\<close> bring the
  magnitude into \<open>[2^52, 2^53)\<close> and count the binary exponent.
\<close>

fun scale_up :: "nat \<Rightarrow> real \<Rightarrow> int \<Rightarrow> real \<times> int" where
  "scale_up 0 m e = (m, e)"
| "scale_up (Suc n) m e = (if m < 2 ^ 52 then scale_up n (m * 2) (e - 1) else (m, e))"

fun scale_down :: "nat \<Rightarrow> real \<Rightarrow> int \<Rightarrow> real \<times> int" where
  "scale_down 0 m e = (m, e)"
| "scale_down (Suc n) m e = (if 2 ^ 53 \<le> m then scale_down n (m / 2) (e + 1) else (m, e))"

definition round_half_even :: "real \<Rightarrow> int" where
  "round_half_even m =
     (let f = \<lfloor>m\<rfloor>; d = m - of_int f
      in if d < 1 / 2 then f else if 1 / 2 < d then f + 1 else if even f then f else f + 1)"

definition round64 :: "real \<Rightarrow> real" where
  "round64 x =
     (if x = 0 then 0
      else
        (let (m1, e1) = scale_up 1100 \<bar>x\<bar> 0;
             (m, e) = scale_down 1100 m1 e1;
             r = of_int (round_half_even m)
         in sgn x * (if 0 \<le> e then r * 2 ^ nat e else r / 2 ^ nat (- e))))"

text \<open>The float product \<open>x * y\<close> of two floats.\<close>

definition fmul :: "real \<Rightarrow> real \<Rightarrow> real" where
  "fmul x y = round64 (x * y)"


section \<open>Entities (simulation/models.py)\<close>

text \<open>
  Objects live in a heap and are referred to by address: a patient reference is a
  \<open>nat\<close> into \<open>pat\<close>, a country reference a \<open>nat\<close> into \<open>ctry\<close>. Python's \<open>is\<close>,
  \<open>in\<close> and \<open>list.remove\<close> on these objects compare identities, that is addresses.
  The database identifiers (\<open>db_id\<close>), the lock object and the logger are left out.
\<close>

datatype state = healthy | infected | recovered | dead

datatype sex = SexM | SexF

datatype py_error = KeyError | ValueError

record Patient =
  country :: nat
  nationality :: string
  sex :: sex
  age :: int
  mask :: bool
  respiratory_disease :: bool
  is_superspreader :: bool
  state :: state
  days_infected :: int
  infectious_period :: "int option"
  hospitalized :: bool
  vaccinated :: bool
  vaccine_type :: "string option"
  has_treatment :: bool
  treatment_type :: "string option"

datatype TravelPolicy = TravelPolicyBase | NoTravel | TenPercent | FreeTravel

record Country =
  name :: string
  vaccines :: "string list"
  treatments :: "string list"
  vaccine :: string
  treatment :: string
  mask_prob :: real
  lockdown_days :: "(int \<times> int) list"
  patients :: "nat list"
  base_transmission :: real
  budget_total :: int
  budget_remaining :: int
  budget_spent_vaccines :: int
  budget_spent_treatments :: int
  hospital_capacity :: int
  current_hospitalized :: int
  max_daily_treatments :: int
  treatments_given_today :: int
  daily_vaccination_capacity :: int
  vaccinated_today :: int
  travellers_in_today :: int
  travellers_out_today :: int
  current_policy :: "TravelPolicy option"
  vaccine_units_given :: "string \<rightharpoonup> int"

record Heap =
  pat :: "nat \<Rightarrow> Patient"
  ctry :: "nat \<Rightarrow> Country"

definition upd_pat :: "nat \<Rightarrow> (Patient \<Rightarrow> Patient) \<Rightarrow> Heap \<Rightarrow> Heap" where
  "upd_pat p f h = h\<lparr>pat := (pat h)(p := f (pat h p))\<rparr>"

definition upd_ctry :: "nat \<Rightarrow> (Country \<Rightarrow> Country) \<Rightarrow> Heap \<Rightarrow> Heap" where
  "upd_ctry c f h = h\<lparr>ctry := (ctry h)(c := f (ctry h c))\<rparr>"

text \<open>\<open>Patient.reset\<close>\<close>

definition reset :: "Patient \<Rightarrow> Patient" where
  "reset p = p\<lparr>state := healthy, days_infected := 0, infectious_period := None,
               has_treatment := False, treatment_type := None, hospitalized := False\<rparr>"

text \<open>
  \<open>Patient.death_probability\<close>: the literals \<open>0.02\<close> and \<open>1.15\<close> are the nearest
  floats, the integer factors are exact, and each \<open>base *= f\<close> is a float product.
\<close>

definition death_probability :: "Patient \<Rightarrow> real" where
  "death_probability p =
     (let base = round64 0.02;
          base = (if age p > 60 then fmul base 3 else if age p > 40 then fmul base 2 else base);
          base = (if sex p = SexM then fmul base (round64 1.15) else base);
          base = (if respiratory_disease p then fmul base 2 else base)
      in base)"


section \<open>Random draws\<close>

text \<open>
  Every call of the random generator takes its outcome from an explicit argument.
  \<open>random.random()\<close> is a real argument; \<open>random.randint(a, b)\<close>, \<open>random.choice\<close>
  and \<open>random.sample\<close> are computed from natural-number draws so that every outcome
  is in range and every in-range outcome is reached by some draw.
\<close>

definition randint :: "int \<Rightarrow> int \<Rightarrow> nat \<Rightarrow> int" where
  "randint a b d = a + int (d mod nat (b - a + 1))"

definition choice :: "'a list \<Rightarrow> nat \<Rightarrow> 'a" where
  "choice xs d = xs ! (d mod length xs)"

fun remove_nth :: "nat \<Rightarrow> 'a list \<Rightarrow> 'a list" where
  "remove_nth i xs = take i xs @ drop (Suc i) xs"

fun sample :: "(nat \<Rightarrow> nat) \<Rightarrow> 'a list \<Rightarrow> nat \<Rightarrow> 'a list" where
  "sample ds xs 0 = []"
| "sample ds xs (Suc k) =
     (if xs = [] then []
      else let i = ds k mod length xs
           in xs ! i # sample ds (remove_nth i xs) k)"


section \<open>Resource allocator (simulation/disease.py)\<close>

definition high_risk :: "Patient \<Rightarrow> bool" where
  "high_risk p = (age p \<ge> 65 \<or> respiratory_disease p)"

definition deny_treatment :: "Patient \<Rightarrow> Patient" where
  "deny_treatment q = q\<lparr>has_treatment := False, treatment_type := None\<rparr>"

definition allocate_treatment_if_budget :: "nat \<Rightarrow> nat \<Rightarrow> nat \<Rightarrow> Heap \<Rightarrow> Heap" where
  "allocate_treatment_if_budget c p pick h =
     (let h1 = upd_pat p (\<lambda>q. q\<lparr>hospitalized := False\<rparr>) h
      in if treatments (ctry h1 c) = [] then upd_pat p deny_treatment h1
         else
           let hr = high_risk (pat h1 p);
               can_treat_today =
                 (budget_remaining (ctry h1 c) \<ge> TREATMENT_COST
                  \<and> treatments_given_today (ctry h1 c) < max_daily_treatments (ctry h1 c));
               h2 =
                 (if can_treat_today then
                    (let safety_threshold = 0.3 * real_of_int (budget_total (ctry h1 c))
                     in if hr \<or> real_of_int (budget_remaining (ctry h1 c)) > safety_threshold then
                          upd_ctry c (\<lambda>k. k\<lparr>budget_remaining := budget_remaining k - TREATMENT_COST,
                                             budget_spent_treatments := budget_spent_treatments k + TREATMENT_COST,
                                             treatments_given_today := treatments_given_today k + 1\<rparr>)
                            (upd_pat p (\<lambda>q. q\<lparr>has_treatment := True,
                                                treatment_type := Some (choice (treatments (ctry h1 c)) pick)\<rparr>) h1)
                        else upd_pat p deny_treatment h1)
                  else upd_pat p deny_treatment h1)
           in if hr \<and> current_hospitalized (ctry h2 c) < hospital_capacity (ctry h2 c) then
                upd_ctry c (\<lambda>k. k\<lparr>current_hospitalized := current_hospitalized k + 1\<rparr>)
                  (upd_pat p (\<lambda>q. q\<lparr>hospitalized := True\<rparr>) h2)
              else h2)"


section \<open>Disease progression (simulation/disease.py)\<close>

text \<open>The random outcomes consumed while one patient is processed for one day.\<close>

record Draws =
  period_draw :: nat
  contacts_draw :: nat
  sample_draws :: "nat \<Rightarrow> nat"
  infect_draws :: "nat \<Rightarrow> real"
  target_period_draws :: "nat \<Rightarrow> nat"
  target_treatment_draws :: "nat \<Rightarrow> nat"
  death_draw :: real
  treat_draw :: real
  final_death_draw :: real
  travel_draw :: real
  destination_draw :: nat

text \<open>Python's \<open>int(x)\<close> on a float truncates towards zero.\<close>

definition py_int :: "real \<Rightarrow> int" where
  "py_int x = (if x \<ge> 0 then \<lfloor>x\<rfloor> else \<lceil>x\<rceil>)"

text \<open>
  The probability that the infected patient \<open>p\<close> infects the contact \<open>target\<close>; the
  lookup \<open>vaccine_effectiveness[vtype]\<close> raises \<open>KeyError\<close> on an unknown brand.
\<close>

definition transmission_prob :: "Heap \<Rightarrow> nat \<Rightarrow> nat \<Rightarrow> nat \<Rightarrow> int \<Rightarrow> py_error + real" where
  "transmission_prob h c p target day =
     (let prob = base_transmission (ctry h c);
          prob = (if mask (pat h target) then prob * (1 - MASK_EFFECTIVENESS) else prob);
          prob = (if mask (pat h p) then prob * (1 - MASK_EFFECTIVENESS) else prob)
      in if vaccinated (pat h target) then
           (let vtype = (case vaccine_type (pat h target) of
                           None \<Rightarrow> vaccine (ctry h c)
                         | Some v \<Rightarrow> if v = [] then vaccine (ctry h c) else v)
            in case vaccine_effectiveness vtype of
                 None \<Rightarrow> Inl KeyError
               | Some eff \<Rightarrow>
                   (let eff = (if day \<ge> VARIANT_DAY
                               then max 0 (eff - VARIANT_VACCINE_EFFECTIVENESS_DROP) else eff)
                    in Inr (prob * (1 - eff))))
         else Inr prob)"

text \<open>The loop \<open>for target in contacts\<close>; \<open>i\<close> counts the iterations.\<close>

fun infect_contacts :: "nat \<Rightarrow> nat \<Rightarrow> int \<Rightarrow> Draws \<Rightarrow> nat \<Rightarrow> nat list \<Rightarrow> Heap \<Rightarrow> py_error option \<times> Heap" where
  "infect_contacts p c day d i [] h = (None, h)"
| "infect_contacts p c day d i (target # contacts) h =
     (case transmission_prob h c p target day of
        Inl e \<Rightarrow> (Some e, h)
      | Inr prob \<Rightarrow>
          (let h' =
             (if infect_draws d i < prob then
                (if state (pat h target) = healthy then
                   allocate_treatment_if_budget c target (target_treatment_draws d i)
                     (upd_pat target
                        (\<lambda>q. q\<lparr>state := infected, days_infected := 0,
                                infectious_period :=
                                  Some (randint (fst INFECTIOUS_PERIOD_RANGE) (snd INFECTIOUS_PERIOD_RANGE)
                                          (target_period_draws d i))\<rparr>) h)
                 else h)
              else h)
           in infect_contacts p c day d (Suc i) contacts h'))"

text \<open>Release of the hospital slot, as done on both outcome branches.\<close>

definition release_slot :: "nat \<Rightarrow> nat \<Rightarrow> Heap \<Rightarrow> Heap" where
  "release_slot p c h =
     (if hospitalized (pat h p) \<and> current_hospitalized (ctry h c) > 0 then
        upd_pat p (\<lambda>q. q\<lparr>hospitalized := False\<rparr>)
          (upd_ctry c (\<lambda>k. k\<lparr>current_hospitalized := current_hospitalized k - 1\<rparr>) h)
      else h)"

text \<open>The part of \<open>infection_step\<close> after the spread phase: daily death, clock, final day.\<close>

definition progress :: "nat \<Rightarrow> nat \<Rightarrow> Draws \<Rightarrow> bool \<Rightarrow> int \<Rightarrow> Heap \<Rightarrow> Heap" where
  "progress p c d hr period h =
     (let death_prob = death_probability (pat h p) * DAILY_DEATH_MULTIPLIER;
          death_prob = (if hospitalized (pat h p) then death_prob * 0.5
                        else if hr then death_prob * 1.5 else death_prob)
      in if death_draw d < death_prob then
           upd_pat p (\<lambda>q. q\<lparr>state := dead\<rparr>) (release_slot p c h)
         else
           (let h1 = upd_pat p (\<lambda>q. q\<lparr>days_infected := days_infected q + 1\<rparr>) h
            in if days_infected (pat h1 p) \<ge> period then
                 (let treat_prob =
                        (if has_treatment (pat h1 p) then
                           (case treatment_type (pat h1 p) of
                              None \<Rightarrow> 0
                            | Some t \<Rightarrow> (case treatment_effectiveness t of None \<Rightarrow> 0 | Some e \<Rightarrow> e))
                         else 0);
                      r = treat_draw d;
                      base_final_death_prob = death_probability (pat h1 p) * 0.7;
                      base_final_death_prob =
                        (if hospitalized (pat h1 p) then base_final_death_prob * 0.5
                         else if hr then base_final_death_prob * 1.5 else base_final_death_prob);
                      result = (if r < treat_prob then recovered
                                else if final_death_draw d < base_final_death_prob then dead
                                else recovered)
                  in upd_pat p (\<lambda>q. q\<lparr>state := result\<rparr>) (release_slot p c h1))
               else h1))"

text \<open>
  Today's contacts of the infected patient \<open>p\<close>: the snapshot of the healthy patients
  of the country, the number of contacts, and the sample without replacement.
\<close>

definition contacts_today :: "nat \<Rightarrow> nat \<Rightarrow> int \<Rightarrow> Draws \<Rightarrow> Heap \<Rightarrow> nat list" where
  "contacts_today p c day d h =
     (let healthy_people = filter (\<lambda>x. state (pat h x) = healthy) (patients (ctry h c));
          contacts_count = randint (fst CONTACTS_RANGE) (snd CONTACTS_RANGE) (contacts_draw d);
          in_lockdown = list_ex (\<lambda>(s, e). s \<le> day \<and> day \<le> e) (lockdown_days (ctry h c));
          contacts_count =
            (if in_lockdown
             then max 1 (py_int (real_of_int contacts_count * LOCKDOWN_CONTACT_FACTOR))
             else contacts_count);
          contacts_count =
            (if is_superspreader (pat h p) then contacts_count * SUPERSPREADER_MULTIPLIER
             else contacts_count)
      in if healthy_people \<noteq> [] then
           sample (sample_draws d) healthy_people
             (nat (min (int (length healthy_people)) contacts_count))
         else [])"

definition infection_step :: "nat \<Rightarrow> nat \<Rightarrow> int \<Rightarrow> Draws \<Rightarrow> Heap \<Rightarrow> py_error option \<times> Heap" where
  "infection_step p c day d h =
     (if state (pat h p) \<in> {healthy, recovered, dead} then (None, h)
      else
        (let hr = high_risk (pat h p);
             period = (case infectious_period (pat h p) of
                         None \<Rightarrow> randint (fst INFECTIOUS_PERIOD_RANGE) (snd INFECTIOUS_PERIOD_RANGE) (period_draw d)
                       | Some v \<Rightarrow> v);
             h1 = upd_pat p (\<lambda>q. q\<lparr>infectious_period := Some period\<rparr>) h;
             (err, h2) =
               (if days_infected (pat h1 p) < period
                then infect_contacts p c day d 0 (contacts_today p c day d h1) h1
                else (None, h1))
         in case err of
              Some e \<Rightarrow> (Some e, h2)
            | None \<Rightarrow> (None, progress p c d hr period h2)))"


section \<open>Travel policies (simulation/policies.py)\<close>

fun travel_probability :: "TravelPolicy \<Rightarrow> Patient \<Rightarrow> int \<Rightarrow> real" where
  "travel_probability TravelPolicyBase patient day = 0.0"
| "travel_probability NoTravel patient day = 0.0"
| "travel_probability TenPercent patient day = BASE_TRAVEL_PROB * 0.10"
| "travel_probability FreeTravel patient day = BASE_TRAVEL_PROB"

definition other_countries :: "Heap \<Rightarrow> nat \<Rightarrow> nat list \<Rightarrow> nat \<Rightarrow> nat option" where
  "other_countries h p countries d =
     (let choices = filter (\<lambda>c. c \<noteq> country (pat h p)) countries
      in if choices \<noteq> [] then Some (choice choices d) else None)"

fun pick_destination :: "TravelPolicy \<Rightarrow> Heap \<Rightarrow> nat \<Rightarrow> nat list \<Rightarrow> nat \<Rightarrow> nat option" where
  "pick_destination TravelPolicyBase h p countries d = None"
| "pick_destination NoTravel h p countries d = None"
| "pick_destination TenPercent h p countries d = other_countries h p countries d"
| "pick_destination FreeTravel h p countries d = other_countries h p countries d"


section \<open>Migration router (simulation/migration.py)\<close>

definition try_travel :: "nat list \<Rightarrow> nat \<Rightarrow> TravelPolicy \<Rightarrow> int \<Rightarrow> real \<Rightarrow> nat \<Rightarrow> Heap \<Rightarrow> bool \<times> Heap" where
  "try_travel countries p policy day r dd h =
     (if state (pat h p) = dead then (False, h)
      else if r > travel_probability policy (pat h p) day then (False, h)
      else
        (case pick_destination policy h p countries dd of
           None \<Rightarrow> (False, h)
         | Some destination \<Rightarrow>
             if destination = country (pat h p) then (False, h)
             else
               (let origin = country (pat h p)
                in if p \<notin> set (patients (ctry h origin)) then (False, h)
                   else
                     (let h1 = upd_ctry origin
                                 (\<lambda>k. k\<lparr>patients := remove1 p (patients k),
                                        travellers_out_today := travellers_out_today k + 1\<rparr>) h;
                          h2 = upd_ctry destination
                                 (\<lambda>k. k\<lparr>patients := patients k @ [p],
                                        travellers_in_today := travellers_in_today k + 1\<rparr>) h1;
                          h3 = upd_pat p (\<lambda>q. q\<lparr>country := destination\<rparr>) h2
                      in (True, h3)))))"


section \<open>Batch worker (simulation/workers.py)\<close>

record Simulation =
  countries :: "nat list"
  policy_obj_by_country :: "string \<Rightarrow> TravelPolicy option"

text \<open>
  The body of the loop of \<open>process_patient_batch\<close> for one patient. An exception raised
  by the disease step is caught: the patient's travel is skipped and the batch goes on.
\<close>

definition process_patient :: "Simulation \<Rightarrow> TravelPolicy option \<Rightarrow> nat \<Rightarrow> int \<Rightarrow> nat \<Rightarrow> Draws \<Rightarrow> Heap \<Rightarrow> Heap" where
  "process_patient sim policy c day p d h =
     (case infection_step p c day d h of
        (Some e, h1) \<Rightarrow> h1
      | (None, h1) \<Rightarrow>
          (case policy of
             None \<Rightarrow> h1
           | Some pol \<Rightarrow>
               if state (pat h1 p) \<noteq> dead then
                 (let origin = country (pat h1 p);
                      (travelled, h2) = try_travel (countries sim) p pol day (travel_draw d) (destination_draw d) h1
                  in if travelled then
                       (let destination = country (pat h2 p);
                            h3 = upd_ctry origin (\<lambda>k. k\<lparr>travellers_out_today := travellers_out_today k + 1\<rparr>) h2;
                            h4 = upd_ctry destination (\<lambda>k. k\<lparr>travellers_in_today := travellers_in_today k + 1\<rparr>) h3
                        in h4)
                     else h2)
               else h1))"

fun batch_loop :: "Simulation \<Rightarrow> TravelPolicy option \<Rightarrow> nat \<Rightarrow> int \<Rightarrow> (nat \<Rightarrow> Draws) \<Rightarrow> nat \<Rightarrow> nat list \<Rightarrow> Heap \<Rightarrow> Heap" where
  "batch_loop sim policy c day ds i [] h = h"
| "batch_loop sim policy c day ds i (p # ps) h =
     batch_loop sim policy c day ds (Suc i) ps (process_patient sim policy c day p (ds i) h)"

definition process_patient_batch :: "nat list \<Rightarrow> Simulation \<Rightarrow> nat \<Rightarrow> int \<Rightarrow> (nat \<Rightarrow> Draws) \<Rightarrow> Heap \<Rightarrow> Heap" where
  "process_patient_batch ps sim c day ds h =
     (let policy = policy_obj_by_country sim (name (ctry h c))
      in batch_loop sim policy c day ds 0 ps h)"


section \<open>Initial vaccination (\<open>Country._initial_vaccination\<close>, simulation/models.py)\<close>

text \<open>
  The comprehension \<open>[v for v in self.vaccines if self.budget_remaining >= VACCINE_COST[v]]\<close>;
  the lookup raises \<open>KeyError\<close> on a brand without a price.
\<close>

fun affordable_vaccines :: "int \<Rightarrow> string list \<Rightarrow> py_error + string list" where
  "affordable_vaccines b [] = Inr []"
| "affordable_vaccines b (v # vs) =
     (case VACCINE_COST v of
        None \<Rightarrow> Inl KeyError
      | Some cost \<Rightarrow>
          (case affordable_vaccines b vs of
             Inl e \<Rightarrow> Inl e
           | Inr r \<Rightarrow> Inr (if b \<ge> cost then v # r else r)))"

text \<open>
  The statement \<open>d[k] += 1\<close> on the per-brand counters, which raises \<open>KeyError\<close> when
  the brand has no counter.
\<close>

definition count_unit :: "nat \<Rightarrow> string \<Rightarrow> Heap \<Rightarrow> py_error + Heap" where
  "count_unit c v h =
     (case vaccine_units_given (ctry h c) v of
        None \<Rightarrow> Inl KeyError
      | Some n \<Rightarrow> Inr (upd_ctry c (\<lambda>k. k\<lparr>vaccine_units_given := (vaccine_units_given k)(v \<mapsto> n + 1)\<rparr>) h))"

text \<open>One dose: flag the patient, pay, count.\<close>

definition give_dose :: "nat \<Rightarrow> nat \<Rightarrow> string \<Rightarrow> int \<Rightarrow> Heap \<Rightarrow> Heap" where
  "give_dose c p v cost h =
     upd_ctry c (\<lambda>k. k\<lparr>budget_remaining := budget_remaining k - cost,
                        budget_spent_vaccines := budget_spent_vaccines k + cost\<rparr>)
       (upd_pat p (\<lambda>q. q\<lparr>vaccinated := True, vaccine_type := Some v\<rparr>) h)"

fun initial_vaccination_loop :: "nat \<Rightarrow> (nat \<Rightarrow> real) \<Rightarrow> (nat \<Rightarrow> nat) \<Rightarrow> nat \<Rightarrow> nat list \<Rightarrow> Heap \<Rightarrow> py_error option \<times> Heap" where
  "initial_vaccination_loop c coin pick i [] h = (None, h)"
| "initial_vaccination_loop c coin pick i (p # ps) h =
     (if coin i < 0.5 \<and> budget_remaining (ctry h c) > 0 then
        (case affordable_vaccines (budget_remaining (ctry h c)) (vaccines (ctry h c)) of
           Inl e \<Rightarrow> (Some e, h)
         | Inr affordable \<Rightarrow>
             if affordable = [] then (None, h)
             else
               (let vtype = choice affordable (pick i)
                in case VACCINE_COST vtype of
                     None \<Rightarrow> (Some KeyError, h)
                   | Some cost \<Rightarrow>
                       if budget_remaining (ctry h c) < cost
                       then initial_vaccination_loop c coin pick (Suc i) ps h
                       else
                         (case count_unit c vtype (give_dose c p vtype cost h) of
                            Inl e \<Rightarrow> (Some e, give_dose c p vtype cost h)
                          | Inr h' \<Rightarrow> initial_vaccination_loop c coin pick (Suc i) ps h')))
      else initial_vaccination_loop c coin pick (Suc i) ps h)"

definition initial_vaccination :: "nat \<Rightarrow> (nat \<Rightarrow> real) \<Rightarrow> (nat \<Rightarrow> nat) \<Rightarrow> Heap \<Rightarrow> py_error option \<times> Heap" where
  "initial_vaccination c coin pick h =
     (if vaccines (ctry h c) = [] then (None, h)
      else initial_vaccination_loop c coin pick 0 (patients (ctry h c)) h)"


section \<open>Simulation engine (simulation/simulation.py)\<close>

definition reset_all :: "nat list \<Rightarrow> Heap \<Rightarrow> Heap" where
  "reset_all cs h = fold (\<lambda>c h. fold (\<lambda>p h. upd_pat p reset h) (patients (ctry h c)) h) cs h"

text \<open>The loop \<open>for p in random.sample(italy.patients, k=initial_k)\<close>.\<close>

fun seed_loop :: "nat \<Rightarrow> (nat \<Rightarrow> nat) \<Rightarrow> (nat \<Rightarrow> nat) \<Rightarrow> nat \<Rightarrow> nat list \<Rightarrow> Heap \<Rightarrow> Heap" where
  "seed_loop italy pd td i [] h = h"
| "seed_loop italy pd td i (p # ps) h =
     seed_loop italy pd td (Suc i) ps
       (allocate_treatment_if_budget italy p (td i)
          (upd_pat p
             (\<lambda>q. q\<lparr>state := infected,
                     infectious_period :=
                       Some (randint (fst INFECTIOUS_PERIOD_RANGE) (snd INFECTIOUS_PERIOD_RANGE) (pd i))\<rparr>) h))"

definition seed_virus :: "Simulation \<Rightarrow> (nat \<Rightarrow> nat) \<Rightarrow> (nat \<Rightarrow> nat) \<Rightarrow> (nat \<Rightarrow> nat) \<Rightarrow> Heap \<Rightarrow> py_error option \<times> Heap" where
  "seed_virus sim sd pd td h =
     (let h1 = reset_all (countries sim) h
      in case find (\<lambda>c. name (ctry h1 c) = ''Italy'') (countries sim) of
           None \<Rightarrow> (Some ValueError, h1)
         | Some italy \<Rightarrow>
             (let initial_k = py_int (real (length (patients (ctry h1 italy))) * INITIAL_INFECTED_FRAC)
              in if initial_k \<le> 0 then (None, h1)
                 else (None, seed_loop italy pd td 0
                               (sample sd (patients (ctry h1 italy)) (nat initial_k)) h1)))"

text \<open>
  The key of the campaign's ranking. Python compares the tuples lexicographically.
\<close>

definition risk_key :: "Patient \<Rightarrow> int \<times> int" where
  "risk_key p = ((if respiratory_disease p \<or> age p \<ge> 65 then 1 else 0), age p)"

text \<open>
  \<open>list.sort(key=f, reverse=True)\<close>: Python's sort is stable, and with \<open>reverse=True\<close>
  it reverses the list, sorts it stably in ascending order and reverses the result,
  so that elements with equal keys keep their original order.
\<close>

definition sort_reverse :: "('a \<Rightarrow> 'k::linorder) \<Rightarrow> 'a list \<Rightarrow> 'a list" where
  "sort_reverse f xs = rev (sort_key f (rev xs))"

text \<open>The loop \<open>for p in to_vaccinate\<close>.\<close>

fun vaccinate_loop :: "nat \<Rightarrow> string \<Rightarrow> int \<Rightarrow> nat list \<Rightarrow> Heap \<Rightarrow> py_error option \<times> Heap" where
  "vaccinate_loop c main_vaccine unit_cost [] h = (None, h)"
| "vaccinate_loop c main_vaccine unit_cost (p # ps) h =
     (if budget_remaining (ctry h c) < unit_cost then (None, h)
      else if vaccinated (pat h p) then vaccinate_loop c main_vaccine unit_cost ps h
      else
        (let h1 = upd_ctry c (\<lambda>k. k\<lparr>vaccinated_today := vaccinated_today k + 1\<rparr>)
                    (give_dose c p main_vaccine unit_cost h)
         in case count_unit c main_vaccine h1 of
              Inl e \<Rightarrow> (Some e, h1)
            | Inr h2 \<Rightarrow> vaccinate_loop c main_vaccine unit_cost ps h2))"

definition candidates_of :: "Heap \<Rightarrow> nat \<Rightarrow> nat list" where
  "candidates_of h c =
     filter (\<lambda>p. state (pat h p) \<noteq> dead \<and> \<not> vaccinated (pat h p)) (patients (ctry h c))"

definition run_vaccination_campaign :: "nat \<Rightarrow> int \<Rightarrow> Heap \<Rightarrow> py_error option \<times> Heap" where
  "run_vaccination_campaign c day h =
     (if day < VACCINATION_CAMPAIGN_DAY then (None, h)
      else if vaccines (ctry h c) = [] then (None, h)
      else
        (let main_vaccine = vaccine (ctry h c);
             unit_cost = (case VACCINE_COST main_vaccine of None \<Rightarrow> 0 | Some v \<Rightarrow> v)
         in if unit_cost \<le> 0 then (None, h)
            else
              (let max_by_budget = budget_remaining (ctry h c) div unit_cost
               in if max_by_budget \<le> 0 then (None, h)
                  else
                    (let remaining_capacity = daily_vaccination_capacity (ctry h c)
                     in if remaining_capacity \<le> 0 then (None, h)
                        else
                          (let max_to_vaccinate = min max_by_budget remaining_capacity;
                               candidates = candidates_of h c
                           in if candidates = [] then (None, h)
                              else
                                (let candidates = sort_reverse (\<lambda>p. risk_key (pat h p)) candidates;
                                     to_vaccinate = take (nat max_to_vaccinate) candidates
                                 in vaccinate_loop c main_vaccine unit_cost to_vaccinate h))))))"


section \<open>Resource invariant\<close>

text \<open>
  The three resource bounds of a country, as the specification states them.
\<close>

definition resource_invariant :: "Country \<Rightarrow> bool" where
  "resource_invariant k =
     (current_hospitalized k \<le> hospital_capacity k
      \<and> treatments_given_today k \<le> max_daily_treatments k
      \<and> budget_remaining k \<ge> 0)"


section \<open>A small world\<close>

text \<open>
  Concrete entities on which the theorems below are instantiated. The country figures
  are those \<open>Country.__init__\<close> computes for Italy in \<open>build_default_world\<close>
  (budget 850, hospital capacity \<open>max(50, 850 // 4)\<close>, and so on).
\<close>

definition example_patient :: "nat \<Rightarrow> int \<Rightarrow> bool \<Rightarrow> Patient" where
  "example_patient c a resp =
     \<lparr>country = c, nationality = ''Italy'', sex = SexF, age = a, mask = False,
      respiratory_disease = resp, is_superspreader = False, state = healthy,
      days_infected = 0, infectious_period = None, hospitalized = False,
      vaccinated = False, vaccine_type = None, has_treatment = False,
      treatment_type = None\<rparr>"

definition example_country :: "string \<Rightarrow> nat list \<Rightarrow> Country" where
  "example_country n ps =
     \<lparr>name = n, vaccines = [''C''], treatments = [''T1''], vaccine = ''C'', treatment = ''T1'',
      mask_prob = 0.8, lockdown_days = [(5, 15)], patients = ps, base_transmission = 0.30,
      budget_total = 850, budget_remaining = 850, budget_spent_vaccines = 0,
      budget_spent_treatments = 0, hospital_capacity = 212, current_hospitalized = 0,
      max_daily_treatments = 106, treatments_given_today = 0,
      daily_vaccination_capacity = 56, vaccinated_today = 0, travellers_in_today = 0,
      travellers_out_today = 0, current_policy = None,
      vaccine_units_given = [''A'' \<mapsto> 0, ''B'' \<mapsto> 0, ''C'' \<mapsto> 0]\<rparr>"

text \<open>
  Patients 0, 1, 2 (aged 20, 45, 70) live in country 0 (Italy), patients 3 and 4 in
  country 1 (Sweden).
\<close>

definition example_heap :: Heap where
  "example_heap =
     \<lparr>pat = (\<lambda>i. example_patient (if i < 3 then 0 else 1) (20 + 25 * int i) False),
      ctry = (\<lambda>c. if c = 0 then example_country ''Italy'' [0, 1, 2]
                   else example_country ''Sweden'' [3, 4])\<rparr>"


definition example_draws :: Draws where
  "example_draws =
     \<lparr>period_draw = 0, contacts_draw = 0, sample_draws = (\<lambda>_. 0), infect_draws = (\<lambda>_. 0),
      target_period_draws = (\<lambda>_. 0), target_treatment_draws = (\<lambda>_. 0), death_draw = 1,
      treat_draw = 0, final_death_draw = 1, travel_draw = 0, destination_draw = 0\<rparr>"

definition example_simulation :: Simulation where
  "example_simulation = \<lparr>countries = [0, 1], policy_obj_by_country = (\<lambda>n. Some FreeTravel)\<rparr>"


text \<open>
  A country with primary vaccine A, a remaining budget of 100 and a daily vaccination
  capacity of 10. Its roster holds fourteen patients: patient 0 is 20 years old with a
  respiratory disease; patients 1 and 2 are both 30; patients 3 to 11 are 35, 40, ...,
  75; patient 12 is 80 and dead; patient 13 is 22. Patient 3 is already vaccinated with
  brand B. Twelve patients are candidates of a campaign.
\<close>

definition campaign_heap :: Heap where
  "campaign_heap =
     \<lparr>pat = (\<lambda>i. (example_patient 0
                     (if i = 0 then 20 else if i = 1 \<or> i = 2 then 30
                      else if i = 13 then 22 else 20 + 5 * int i)
                     (i = 0))
                  \<lparr>state := (if i = 12 then dead else healthy),
                   vaccinated := (i = 3),
                   vaccine_type := (if i = 3 then Some ''B'' else None)\<rparr>),
      ctry = (\<lambda>c. (example_country ''Germany'' [0, 1, 2, 3, 4, 5, 6, 7, 8, 9, 10, 11, 12, 13])
                      \<lparr>vaccines := [''A'', ''B''], vaccine := ''A'', budget_remaining := 100,
                       daily_vaccination_capacity := 10\<rparr>)\<rparr>"

text \<open>
  The same country, named Italy, with its full budget: fourteen patients, so one
  seeded infection.
\<close>

definition seeding_heap :: Heap where
  "seeding_heap =
     upd_ctry 0 (\<lambda>k. k\<lparr>name := ''Italy'', budget_remaining := 850\<rparr>) campaign_heap"


section \<open>Heap updates\<close>

lemma pat_upd_pat [simp]: "pat (upd_pat p f h) q = (if q = p then f (pat h p) else pat h q)"
  by (simp add: upd_pat_def)

lemma ctry_upd_pat [simp]: "ctry (upd_pat p f h) = ctry h"
  by (simp add: upd_pat_def)

lemma pat_upd_ctry [simp]: "pat (upd_ctry c f h) = pat h"
  by (simp add: upd_ctry_def)

lemma ctry_upd_ctry [simp]: "ctry (upd_ctry c f h) k = (if k = c then f (ctry h c) else ctry h k)"
  by (simp add: upd_ctry_def)

lemmas example_defs = example_heap_def example_country_def example_patient_def


section \<open>Patient operations\<close>

text \<open>
  C7 (as amended). \<open>Patient.reset\<close> sets the disease state to healthy, the infection
  clock to 0, the infectious period to unset, and clears the treatment flag, the
  treatment type and the hospitalisation flag. It leaves the vaccination flag and the
  vaccine type as they were, as well as the demographics (sex, age, respiratory
  disease, mask, superspreader), the nationality and the country affiliation.
\<close>

theorem reset_effect:
  "state (reset p) = healthy \<and> days_infected (reset p) = 0
   \<and> infectious_period (reset p) = None
   \<and> has_treatment (reset p) = False \<and> treatment_type (reset p) = None
   \<and> hospitalized (reset p) = False
   \<and> vaccinated (reset p) = vaccinated p \<and> vaccine_type (reset p) = vaccine_type p
   \<and> sex (reset p) = sex p \<and> age (reset p) = age p
   \<and> respiratory_disease (reset p) = respiratory_disease p \<and> mask (reset p) = mask p
   \<and> is_superspreader (reset p) = is_superspreader p
   \<and> country (reset p) = country p \<and> nationality (reset p) = nationality p"
  by (simp add: reset_def)

text \<open>
  C7 (as stated) fails: a patient vaccinated with brand C is still vaccinated with
  brand C after \<open>reset\<close>, so the vaccination flags are not cleared.
\<close>

theorem reset_keeps_vaccination:
  "vaccinated (reset ((example_patient 0 30 False)\<lparr>vaccinated := True, vaccine_type := Some ''C''\<rparr>))
   \<and> vaccine_type (reset ((example_patient 0 30 False)\<lparr>vaccinated := True, vaccine_type := Some ''C''\<rparr>))
       = Some ''C''"
  by (simp add: reset_def example_patient_def)

section \<open>Treatment allocation\<close>

lemma alloc_empty:
  assumes "treatments (ctry h c) = []"
  shows "allocate_treatment_if_budget c p pick h =
           upd_pat p (\<lambda>q. q\<lparr>hospitalized := False, has_treatment := False, treatment_type := None\<rparr>) h"
  using assms
  by (simp add: allocate_treatment_if_budget_def Let_def deny_treatment_def upd_pat_def)

lemma alloc_frame_pat: "q \<noteq> p \<Longrightarrow> pat (allocate_treatment_if_budget c p pick h) q = pat h q"
  by (simp add: allocate_treatment_if_budget_def Let_def)

lemma alloc_frame_ctry: "k \<noteq> c \<Longrightarrow> ctry (allocate_treatment_if_budget c p pick h) k = ctry h k"
  by (simp add: allocate_treatment_if_budget_def Let_def)

lemma alloc_pat_fields:
  "state (pat (allocate_treatment_if_budget c p pick h) q) = state (pat h q)"
  "infectious_period (pat (allocate_treatment_if_budget c p pick h) q) = infectious_period (pat h q)"
  "days_infected (pat (allocate_treatment_if_budget c p pick h) q) = days_infected (pat h q)"
  "vaccinated (pat (allocate_treatment_if_budget c p pick h) q) = vaccinated (pat h q)"
  "vaccine_type (pat (allocate_treatment_if_budget c p pick h) q) = vaccine_type (pat h q)"
  "age (pat (allocate_treatment_if_budget c p pick h) q) = age (pat h q)"
  "respiratory_disease (pat (allocate_treatment_if_budget c p pick h) q) = respiratory_disease (pat h q)"
  "country (pat (allocate_treatment_if_budget c p pick h) q) = country (pat h q)"
  by (simp_all add: allocate_treatment_if_budget_def Let_def deny_treatment_def)

lemma alloc_ctry_fields:
  "patients (ctry (allocate_treatment_if_budget c p pick h) k) = patients (ctry h k)"
  "name (ctry (allocate_treatment_if_budget c p pick h) k) = name (ctry h k)"
  "treatments (ctry (allocate_treatment_if_budget c p pick h) k) = treatments (ctry h k)"
  "hospital_capacity (ctry (allocate_treatment_if_budget c p pick h) k) = hospital_capacity (ctry h k)"
  "max_daily_treatments (ctry (allocate_treatment_if_budget c p pick h) k) = max_daily_treatments (ctry h k)"
  "budget_total (ctry (allocate_treatment_if_budget c p pick h) k) = budget_total (ctry h k)"
  by (simp_all add: allocate_treatment_if_budget_def Let_def deny_treatment_def)

text \<open>
  C6. On a country with a non-empty treatment catalog, treatment is granted iff the
  budget covers the unit cost, the daily quota is not used up, and the patient is
  high-risk (aged 65 or more, or with a respiratory disease) or the budget is above 0.3
  times the total; on grant the type is one of the catalog, the budget goes down by the
  unit cost, and the spend and the daily counter go up. Independently the patient is
  hospitalised iff high-risk with a free hospital place, which takes the place. With an
  empty catalog the patient gets neither treatment nor hospitalisation.
\<close>

theorem allocate_treatment_rule:
  assumes "h' = allocate_treatment_if_budget c p pick h"
    and "hr = (age (pat h p) \<ge> 65 \<or> respiratory_disease (pat h p))"
    and "grant = (budget_remaining (ctry h c) \<ge> TREATMENT_COST
                  \<and> treatments_given_today (ctry h c) < max_daily_treatments (ctry h c)
                  \<and> (hr \<or> real_of_int (budget_remaining (ctry h c))
                            > 0.3 * real_of_int (budget_total (ctry h c))))"
    and "hosp = (hr \<and> current_hospitalized (ctry h c) < hospital_capacity (ctry h c))"
  shows "(treatments (ctry h c) \<noteq> [] \<longrightarrow>
            has_treatment (pat h' p) = grant
          \<and> (grant \<longrightarrow> treatment_type (pat h' p) \<in> Some ` set (treatments (ctry h c)))
          \<and> budget_remaining (ctry h' c)
              = budget_remaining (ctry h c) - (if grant then TREATMENT_COST else 0)
          \<and> budget_spent_treatments (ctry h' c)
              = budget_spent_treatments (ctry h c) + (if grant then TREATMENT_COST else 0)
          \<and> treatments_given_today (ctry h' c)
              = treatments_given_today (ctry h c) + (if grant then 1 else 0)
          \<and> hospitalized (pat h' p) = hosp
          \<and> current_hospitalized (ctry h' c)
              = current_hospitalized (ctry h c) + (if hosp then 1 else 0))
       \<and> (treatments (ctry h c) = [] \<longrightarrow>
            \<not> has_treatment (pat h' p) \<and> treatment_type (pat h' p) = None
          \<and> \<not> hospitalized (pat h' p) \<and> ctry h' = ctry h)"
proof (cases "treatments (ctry h c) = []")
  case True
  then show ?thesis
    using assms(1) by (simp add: alloc_empty)
next
  case False
  then show ?thesis
    unfolding assms
    by (auto simp add: allocate_treatment_if_budget_def Let_def high_risk_def
        deny_treatment_def choice_def)
qed

theorem allocate_treatment_rule_witness:
  "treatments (ctry example_heap 0) \<noteq> []
   \<and> has_treatment (pat (allocate_treatment_if_budget 0 2 0 example_heap) 2)
   \<and> treatment_type (pat (allocate_treatment_if_budget 0 2 0 example_heap) 2) = Some ''T1''
   \<and> budget_remaining (ctry (allocate_treatment_if_budget 0 2 0 example_heap) 0) = 849
   \<and> hospitalized (pat (allocate_treatment_if_budget 0 2 0 example_heap) 2)
   \<and> current_hospitalized (ctry (allocate_treatment_if_budget 0 2 0 example_heap) 0) = 1
   \<and> treatments (ctry (upd_ctry 0 (\<lambda>k. k\<lparr>treatments := []\<rparr>) example_heap) 0) = []
   \<and> \<not> has_treatment (pat (allocate_treatment_if_budget 0 2 0
                               (upd_ctry 0 (\<lambda>k. k\<lparr>treatments := []\<rparr>) example_heap)) 2)
   \<and> \<not> hospitalized (pat (allocate_treatment_if_budget 0 2 0
                               (upd_ctry 0 (\<lambda>k. k\<lparr>treatments := []\<rparr>) example_heap)) 2)"
  using allocate_treatment_rule [where c = 0 and p = 2 and pick = 0 and h = example_heap,
      OF refl refl refl refl]
    allocate_treatment_rule [where c = 0 and p = 2 and pick = 0
      and h = "upd_ctry 0 (\<lambda>k. k\<lparr>treatments := []\<rparr>) example_heap", OF refl refl refl refl]
  by (simp add: example_defs TREATMENT_COST_def)

text \<open>
  C10. The allocator never lowers the country's hospital occupancy. On return the
  patient's hospitalisation flag is set iff the catalog is non-empty, the patient is
  high-risk and there was a free place before the call, whatever the flag was before.
  So a call on a patient who already holds a place and is not hospitalised again clears
  the flag and leaves the occupancy as it was: the place stays counted.
\<close>

theorem allocate_never_releases_slot:
  assumes "h' = allocate_treatment_if_budget c p pick h"
    and "hosp = (treatments (ctry h c) \<noteq> [] \<and> high_risk (pat h p)
                 \<and> current_hospitalized (ctry h c) < hospital_capacity (ctry h c))"
  shows "current_hospitalized (ctry h' c) \<ge> current_hospitalized (ctry h c)
       \<and> hospitalized (pat h' p) = hosp
       \<and> (hospitalized (pat h p) \<and> \<not> hosp \<longrightarrow>
            \<not> hospitalized (pat h' p)
          \<and> current_hospitalized (ctry h' c) = current_hospitalized (ctry h c))"
proof (cases "treatments (ctry h c) = []")
  case True
  then show ?thesis
    using assms by (simp add: alloc_empty)
next
  case False
  then show ?thesis
    unfolding assms
    by (auto simp add: allocate_treatment_if_budget_def Let_def deny_treatment_def
        high_risk_def)
qed

theorem allocate_never_releases_slot_witness:
  "hospitalized (pat (upd_pat 0 (\<lambda>q. q\<lparr>hospitalized := True\<rparr>)
                        (upd_ctry 0 (\<lambda>k. k\<lparr>current_hospitalized := 1\<rparr>) example_heap)) 0)
   \<and> \<not> high_risk (pat (upd_pat 0 (\<lambda>q. q\<lparr>hospitalized := True\<rparr>)
                        (upd_ctry 0 (\<lambda>k. k\<lparr>current_hospitalized := 1\<rparr>) example_heap)) 0)
   \<and> \<not> hospitalized (pat (allocate_treatment_if_budget 0 0 0
          (upd_pat 0 (\<lambda>q. q\<lparr>hospitalized := True\<rparr>)
             (upd_ctry 0 (\<lambda>k. k\<lparr>current_hospitalized := 1\<rparr>) example_heap))) 0)
   \<and> current_hospitalized (ctry (allocate_treatment_if_budget 0 0 0
          (upd_pat 0 (\<lambda>q. q\<lparr>hospitalized := True\<rparr>)
             (upd_ctry 0 (\<lambda>k. k\<lparr>current_hospitalized := 1\<rparr>) example_heap))) 0) = 1"
  using allocate_never_releases_slot [where c = 0 and p = 0 and pick = 0
      and h = "upd_pat 0 (\<lambda>q. q\<lparr>hospitalized := True\<rparr>)
         (upd_ctry 0 (\<lambda>k. k\<lparr>current_hospitalized := 1\<rparr>) example_heap)", OF refl refl]
  by (simp add: example_defs high_risk_def)

section \<open>Migration\<close>

lemma other_countries_in:
  "other_countries h p cs d = Some k \<Longrightarrow> k \<in> set cs \<and> k \<noteq> country (pat h p)"
proof -
  assume a: "other_countries h p cs d = Some k"
  let ?ch = "filter (\<lambda>c. c \<noteq> country (pat h p)) cs"
  from a have ne: "?ch \<noteq> []" and k: "k = ?ch ! (d mod length ?ch)"
    by (auto simp add: other_countries_def Let_def choice_def split: if_splits)
  from ne have "d mod length ?ch < length ?ch" by simp
  then have "k \<in> set ?ch" unfolding k by (rule nth_mem)
  then show ?thesis by simp
qed

lemma pick_destination_in:
  "pick_destination policy h p cs d = Some k \<Longrightarrow> k \<in> set cs \<and> k \<noteq> country (pat h p)"
  by (cases policy) (simp_all add: other_countries_in)

lemma sum_list_upd:
  fixes f :: "nat \<Rightarrow> nat"
  shows "distinct cs \<Longrightarrow> a \<in> set cs \<Longrightarrow>
    sum_list (map (\<lambda>k. if k = a then v else f k) cs) + f a = sum_list (map f cs) + v"
proof (induction cs)
  case Nil then show ?case by simp
next
  case (Cons x xs)
  show ?case
  proof (cases "x = a")
    case True
    with Cons.prems have "a \<notin> set xs" by simp
    then have "sum_list (map (\<lambda>k. if k = a then v else f k) xs) = sum_list (map f xs)"
      by (induction xs) auto
    with True show ?thesis by simp
  next
    case False
    with Cons have "sum_list (map (\<lambda>k. if k = a then v else f k) xs) + f a = sum_list (map f xs) + v"
      by simp
    with False show ?thesis by simp
  qed
qed

lemma try_travel_fail:
  "state (pat h p) = dead \<or> r > travel_probability policy (pat h p) day
    \<or> pick_destination policy h p cs dd = None
    \<or> pick_destination policy h p cs dd = Some (country (pat h p))
   \<Longrightarrow> try_travel cs p policy day r dd h = (False, h)"
  by (auto simp add: try_travel_def)

lemma try_travel_False: "try_travel cs p policy day r dd h = (False, h') \<Longrightarrow> h' = h"
  by (auto simp add: try_travel_def Let_def split: if_splits option.splits)

lemma try_travel_True:
  assumes "try_travel cs p policy day r dd h = (True, h')"
  shows "\<exists>dest. pick_destination policy h p cs dd = Some dest \<and> dest \<noteq> country (pat h p)
      \<and> p \<in> set (patients (ctry h (country (pat h p))))
      \<and> state (pat h p) \<noteq> dead \<and> \<not> r > travel_probability policy (pat h p) day
      \<and> h' = upd_pat p (\<lambda>q. q\<lparr>country := dest\<rparr>)
               (upd_ctry dest (\<lambda>k. k\<lparr>patients := patients k @ [p],
                                      travellers_in_today := travellers_in_today k + 1\<rparr>)
                  (upd_ctry (country (pat h p))
                     (\<lambda>k. k\<lparr>patients := remove1 p (patients k),
                            travellers_out_today := travellers_out_today k + 1\<rparr>) h))"
  using assms
  by (auto simp add: try_travel_def Let_def split: if_splits option.splits)

lemma roster_total_travel:
  fixes f :: "nat \<Rightarrow> nat"
  assumes "distinct cs" "a \<in> set cs" "b \<in> set cs" "a \<noteq> b" "f a \<ge> 1"
  shows "sum_list (map (\<lambda>k. if k = b then f b + 1 else if k = a then f a - 1 else f k) cs)
         = sum_list (map f cs)"
proof -
  let ?g = "\<lambda>k. if k = a then f a - 1 else f k"
  have g: "sum_list (map ?g cs) + f a = sum_list (map f cs) + (f a - 1)"
    using assms(1,2) by (rule sum_list_upd)
  have "sum_list (map (\<lambda>k. if k = b then f b + 1 else ?g k) cs) + ?g b
        = sum_list (map ?g cs) + (f b + 1)"
    using assms(1,3) by (rule sum_list_upd)
  with g assms(4,5) show ?thesis by simp
qed

text \<open>
  C2. \<open>try_travel\<close> returns False when the patient is dead, when the draw is above the
  policy's travel probability, or when \<open>pick_destination\<close> gives none or the patient's
  own country; whenever it returns False the heap, and so every roster, is unchanged.
  When it returns True the origin's roster is one shorter, the destination's roster one
  longer, the patient's country reference is the destination, and the number of patients
  over the router's countries (a list of distinct countries that holds the origin) is
  unchanged.
\<close>

theorem try_travel_spec:
  assumes "try_travel cs p policy day r dd h = (ok, h')"
  shows "(state (pat h p) = dead \<or> r > travel_probability policy (pat h p) day
           \<or> pick_destination policy h p cs dd = None
           \<or> pick_destination policy h p cs dd = Some (country (pat h p))
          \<longrightarrow> \<not> ok)
       \<and> (\<not> ok \<longrightarrow> h' = h \<and> (\<forall>k. patients (ctry h' k) = patients (ctry h k)))
       \<and> (ok \<longrightarrow>
            (\<exists>dest. pick_destination policy h p cs dd = Some dest
               \<and> country (pat h' p) = dest
               \<and> length (patients (ctry h' (country (pat h p)))) + 1
                   = length (patients (ctry h (country (pat h p))))
               \<and> length (patients (ctry h' dest)) = length (patients (ctry h dest)) + 1
               \<and> (distinct cs \<and> country (pat h p) \<in> set cs \<longrightarrow>
                    sum_list (map (\<lambda>k. length (patients (ctry h' k))) cs)
                    = sum_list (map (\<lambda>k. length (patients (ctry h k))) cs))))"
proof (cases ok)
  case False
  with assms have "h' = h" by (simp add: try_travel_False)
  with False show ?thesis by simp
next
  case True
  with assms have tt: "try_travel cs p policy day r dd h = (True, h')" by simp
  from try_travel_True [OF tt] obtain dest where
    ex: "pick_destination policy h p cs dd = Some dest \<and> dest \<noteq> country (pat h p)
      \<and> p \<in> set (patients (ctry h (country (pat h p))))
      \<and> state (pat h p) \<noteq> dead \<and> \<not> r > travel_probability policy (pat h p) day
      \<and> h' = upd_pat p (\<lambda>q. q\<lparr>country := dest\<rparr>)
               (upd_ctry dest (\<lambda>k. k\<lparr>patients := patients k @ [p],
                                      travellers_in_today := travellers_in_today k + 1\<rparr>)
                  (upd_ctry (country (pat h p))
                     (\<lambda>k. k\<lparr>patients := remove1 p (patients k),
                            travellers_out_today := travellers_out_today k + 1\<rparr>) h))" ..
  from ex have d: "pick_destination policy h p cs dd = Some dest"
      "dest \<noteq> country (pat h p)" "p \<in> set (patients (ctry h (country (pat h p))))"
      "state (pat h p) \<noteq> dead" "\<not> r > travel_probability policy (pat h p) day"
    by simp_all
  from ex have h': "h' = upd_pat p (\<lambda>q. q\<lparr>country := dest\<rparr>)
               (upd_ctry dest (\<lambda>k. k\<lparr>patients := patients k @ [p],
                                      travellers_in_today := travellers_in_today k + 1\<rparr>)
                  (upd_ctry (country (pat h p))
                     (\<lambda>k. k\<lparr>patients := remove1 p (patients k),
                            travellers_out_today := travellers_out_today k + 1\<rparr>) h))"
    by simp
  let ?o = "country (pat h p)"
  let ?f = "\<lambda>k. length (patients (ctry h k))"
  have len: "?f ?o \<ge> 1" using d(3) by (cases "patients (ctry h ?o)") auto
  have rosters: "\<And>k. length (patients (ctry h' k))
       = (if k = dest then ?f dest + 1 else if k = ?o then ?f ?o - 1 else ?f k)"
    using d(2,3) by (simp add: h' length_remove1)
  have dest_in: "dest \<in> set cs" using d(1) pick_destination_in by blast
  have total: "distinct cs \<and> ?o \<in> set cs \<longrightarrow>
      sum_list (map (\<lambda>k. length (patients (ctry h' k))) cs) = sum_list (map ?f cs)"
  proof
    assume a: "distinct cs \<and> ?o \<in> set cs"
    have "sum_list (map (\<lambda>k. if k = dest then ?f dest + 1 else if k = ?o then ?f ?o - 1 else ?f k) cs)
          = sum_list (map ?f cs)"
      using a dest_in d(2) len by (intro roster_total_travel) auto
    then show "sum_list (map (\<lambda>k. length (patients (ctry h' k))) cs) = sum_list (map ?f cs)"
      by (simp only: rosters)
  qed
  have fail: "\<not> (state (pat h p) = dead \<or> r > travel_probability policy (pat h p) day
           \<or> pick_destination policy h p cs dd = None
           \<or> pick_destination policy h p cs dd = Some (country (pat h p)))"
    using d by simp
  have c: "country (pat h' p) = dest" by (simp add: h')
  have l1: "length (patients (ctry h' ?o)) + 1 = ?f ?o" using len d(2) by (simp add: rosters)
  have l2: "length (patients (ctry h' dest)) = ?f dest + 1" by (simp add: rosters)
  from True fail d(1) c l1 l2 total show ?thesis by blast
qed

theorem try_travel_spec_witness:
  "fst (try_travel [0, 1] 0 FreeTravel 2 0 0 example_heap)
   \<and> distinct [0, 1::nat] \<and> country (pat example_heap 0) \<in> set [0, 1]
   \<and> country (pat (snd (try_travel [0, 1] 0 FreeTravel 2 0 0 example_heap)) 0) = 1
   \<and> patients (ctry (snd (try_travel [0, 1] 0 FreeTravel 2 0 0 example_heap)) 0) = [1, 2]
   \<and> patients (ctry (snd (try_travel [0, 1] 0 FreeTravel 2 0 0 example_heap)) 1) = [3, 4, 0]
   \<and> sum_list (map (\<lambda>k. length (patients (ctry (snd (try_travel [0, 1] 0 FreeTravel 2 0 0 example_heap)) k))) [0, 1])
       = sum_list (map (\<lambda>k. length (patients (ctry example_heap k))) [0, 1])
   \<and> 1 > travel_probability FreeTravel (pat example_heap 0) 2
   \<and> \<not> fst (try_travel [0, 1] 0 FreeTravel 2 1 0 example_heap)
   \<and> snd (try_travel [0, 1] 0 FreeTravel 2 1 0 example_heap) = example_heap"
  using try_travel_spec [where cs = "[0, 1]" and p = 0 and policy = FreeTravel and day = 2
      and r = 0 and dd = 0 and h = example_heap, OF surjective_pairing]
    try_travel_spec [where cs = "[0, 1]" and p = 0 and policy = FreeTravel and day = 2
      and r = 1 and dd = 0 and h = example_heap, OF surjective_pairing]
  by (simp add: try_travel_def example_heap_def example_country_def example_patient_def
      other_countries_def choice_def Let_def BASE_TRAVEL_PROB_def)


section \<open>Batch worker\<close>

text \<open>
  C1. One successful travel of patient 0 from country 0 to country 1, processed by a
  batch task: afterwards the origin's \<open>travellers_out_today\<close> and the destination's
  \<open>travellers_in_today\<close> are both 2, not 1, because the router and the worker each
  count the travel.
\<close>

theorem batch_counts_travel_twice:
  "travellers_out_today (ctry (process_patient_batch [0] example_simulation 0 2 (\<lambda>_. example_draws) example_heap) 0) = 2
 \<and> travellers_in_today (ctry (process_patient_batch [0] example_simulation 0 2 (\<lambda>_. example_draws) example_heap) 1) = 2
 \<and> patients (ctry (process_patient_batch [0] example_simulation 0 2 (\<lambda>_. example_draws) example_heap) 0) = [1, 2]
 \<and> patients (ctry (process_patient_batch [0] example_simulation 0 2 (\<lambda>_. example_draws) example_heap) 1) = [3, 4, 0]"
  by (simp add: process_patient_batch_def process_patient_def infection_step_def try_travel_def
      example_simulation_def example_draws_def example_heap_def example_country_def example_patient_def
      other_countries_def choice_def Let_def BASE_TRAVEL_PROB_def)

section \<open>Disease step: shape and resource bounds\<close>

lemma alloc_inv:
  "resource_invariant (ctry h k) \<Longrightarrow> resource_invariant (ctry (allocate_treatment_if_budget c p pick h) k)"
  by (auto simp add: allocate_treatment_if_budget_def Let_def resource_invariant_def
      deny_treatment_def TREATMENT_COST_def)

lemma infect_contacts_inv:
  "resource_invariant (ctry h k) \<Longrightarrow>
   resource_invariant (ctry (snd (infect_contacts p c day d i ts h)) k)"
proof (induction ts arbitrary: i h)
  case Nil
  then show ?case by simp
next
  case (Cons t ts)
  show ?case
  proof (cases "transmission_prob h c p t day")
    case (Inl e)
    with Cons.prems show ?thesis by simp
  next
    case (Inr prob)
    with Cons.prems show ?thesis
      by (auto simp add: Let_def intro!: Cons.IH alloc_inv)
  qed
qed

lemma release_slot_inv:
  "resource_invariant (ctry h k) \<Longrightarrow> resource_invariant (ctry (release_slot p c h) k)"
  by (auto simp add: release_slot_def resource_invariant_def)

lemma progress_inv:
  "resource_invariant (ctry h k) \<Longrightarrow> resource_invariant (ctry (progress p c d hr period h) k)"
  by (auto simp add: progress_def Let_def release_slot_def resource_invariant_def)

text \<open>The shape of a disease step on an infected patient.\<close>

lemma infection_step_noop:
  "state (pat h p) \<noteq> infected \<Longrightarrow> infection_step p c day d h = (None, h)"
  by (cases "state (pat h p)") (simp_all add: infection_step_def)

lemma infection_step_infected:
  assumes "state (pat h p) = infected"
  shows "\<exists>period cs e h2.
           infect_contacts p c day d 0 cs (upd_pat p (\<lambda>q. q\<lparr>infectious_period := Some period\<rparr>) h) = (e, h2)
         \<and> (infection_step p c day d h = (e, h2) \<and> e \<noteq> None
            \<or> infection_step p c day d h = (None, progress p c d (high_risk (pat h p)) period h2) \<and> e = None)"
proof -
  define period where "period = (case infectious_period (pat h p) of
       None \<Rightarrow> randint (fst INFECTIOUS_PERIOD_RANGE) (snd INFECTIOUS_PERIOD_RANGE) (period_draw d)
     | Some v \<Rightarrow> v)"
  define h1 where "h1 = upd_pat p (\<lambda>q. q\<lparr>infectious_period := Some period\<rparr>) h"
  define cs where "cs = (if days_infected (pat h1 p) < period then contacts_today p c day d h1 else [])"
  obtain e h2 where ic: "infect_contacts p c day d 0 cs h1 = (e, h2)" by (metis surj_pair)
  have sp: "(if days_infected (pat h1 p) < period
                then infect_contacts p c day d 0 (contacts_today p c day d h1) h1
                else (None, h1)) = (e, h2)"
    using ic by (auto simp add: cs_def split: if_splits)
  have step: "infection_step p c day d h =
      (case (if days_infected (pat h1 p) < period
                then infect_contacts p c day d 0 (contacts_today p c day d h1) h1
                else (None, h1)) of
         (err, h2) \<Rightarrow> (case err of Some e \<Rightarrow> (Some e, h2)
                       | None \<Rightarrow> (None, progress p c d (high_risk (pat h p)) period h2)))"
    using assms
    by (auto simp add: infection_step_def Let_def period_def h1_def
        split: prod.splits option.splits)
  have "infection_step p c day d h = (e, h2) \<and> e \<noteq> None
       \<or> infection_step p c day d h = (None, progress p c d (high_risk (pat h p)) period h2) \<and> e = None"
    unfolding step sp by (cases e) simp_all
  with ic show ?thesis unfolding h1_def by blast
qed

lemma infection_step_inv:
  assumes "resource_invariant (ctry h k)"
  shows "resource_invariant (ctry (snd (infection_step p c day d h)) k)"
proof (cases "state (pat h p) = infected")
  case False
  with assms show ?thesis by (simp add: infection_step_noop)
next
  case True
  from infection_step_infected [OF True, of c day d] obtain period cs e h2 where
    ic: "infect_contacts p c day d 0 cs (upd_pat p (\<lambda>q. q\<lparr>infectious_period := Some period\<rparr>) h) = (e, h2)"
    and r: "infection_step p c day d h = (e, h2) \<and> e \<noteq> None
            \<or> infection_step p c day d h = (None, progress p c d (high_risk (pat h p)) period h2) \<and> e = None"
    by blast
  have "resource_invariant (ctry (upd_pat p (\<lambda>q. q\<lparr>infectious_period := Some period\<rparr>) h) k)"
    using assms by simp
  from infect_contacts_inv [OF this, of p c day d 0 cs] ic have "resource_invariant (ctry h2 k)"
    by simp
  with r show ?thesis by (auto simp add: progress_inv)
qed

section \<open>Vaccination: resource bounds\<close>

lemma give_dose_inv:
  "cost \<le> budget_remaining (ctry h c) \<Longrightarrow> resource_invariant (ctry h k) \<Longrightarrow>
   resource_invariant (ctry (give_dose c p v cost h) k)"
  by (auto simp add: give_dose_def resource_invariant_def)

lemma count_unit_inv:
  "count_unit c v h = Inr h' \<Longrightarrow> resource_invariant (ctry h k) \<Longrightarrow> resource_invariant (ctry h' k)"
  by (auto simp add: count_unit_def resource_invariant_def split: option.splits)

lemma today_inv:
  "resource_invariant (ctry h k) \<Longrightarrow>
   resource_invariant (ctry (upd_ctry c (\<lambda>k. k\<lparr>vaccinated_today := vaccinated_today k + 1\<rparr>) h) k)"
  by (auto simp add: resource_invariant_def)

lemma vaccinate_loop_inv:
  "resource_invariant (ctry h k) \<Longrightarrow>
   resource_invariant (ctry (snd (vaccinate_loop c mv cost ps h)) k)"
proof (induction ps arbitrary: h)
  case Nil
  then show ?case by simp
next
  case (Cons p ps)
  show ?case
  proof (cases "budget_remaining (ctry h c) < cost \<or> vaccinated (pat h p)")
    case True
    with Cons show ?thesis by auto
  next
    case False
    let ?h1 = "upd_ctry c (\<lambda>k. k\<lparr>vaccinated_today := vaccinated_today k + 1\<rparr>) (give_dose c p mv cost h)"
    have i1: "resource_invariant (ctry ?h1 k)"
      using False Cons.prems by (intro today_inv give_dose_inv) auto
    show ?thesis
    proof (cases "count_unit c mv ?h1")
      case (Inl e)
      with False i1 show ?thesis by (simp add: Let_def)
    next
      case (Inr h2)
      from count_unit_inv [OF Inr i1] have "resource_invariant (ctry h2 k)" .
      from Cons.IH [OF this] Inr False show ?thesis by (simp add: Let_def)
    qed
  qed
qed

lemma run_vaccination_campaign_inv:
  "resource_invariant (ctry h k) \<Longrightarrow>
   resource_invariant (ctry (snd (run_vaccination_campaign c day h)) k)"
  by (auto simp add: run_vaccination_campaign_def Let_def vaccinate_loop_inv)

lemma initial_vaccination_loop_inv:
  "resource_invariant (ctry h k) \<Longrightarrow>
   resource_invariant (ctry (snd (initial_vaccination_loop c coin pick i ps h)) k)"
proof (induction ps arbitrary: i h)
  case Nil
  then show ?case by simp
next
  case (Cons p ps)
  note IH = Cons.IH and inv = Cons.prems
  show ?case
  proof (cases "coin i < 0.5 \<and> budget_remaining (ctry h c) > 0")
    case False
    with IH [OF inv] show ?thesis by auto
  next
    case True
    show ?thesis
    proof (cases "affordable_vaccines (budget_remaining (ctry h c)) (vaccines (ctry h c))")
      case (Inl e)
      with True inv show ?thesis by simp
    next
      case (Inr aff)
      show ?thesis
      proof (cases "aff = []")
        case True
        with \<open>coin i < 0.5 \<and> budget_remaining (ctry h c) > 0\<close> Inr inv show ?thesis by simp
      next
        case ne: False
        show ?thesis
        proof (cases "VACCINE_COST (choice aff (pick i))")
          case None
          with True Inr ne inv show ?thesis by (simp add: Let_def)
        next
          case (Some cost)
          show ?thesis
          proof (cases "budget_remaining (ctry h c) < cost")
            case True
            with \<open>coin i < 0.5 \<and> budget_remaining (ctry h c) > 0\<close> Inr ne Some IH [OF inv]
            show ?thesis by (simp add: Let_def)
          next
            case False
            let ?h1 = "give_dose c p (choice aff (pick i)) cost h"
            have i1: "resource_invariant (ctry ?h1 k)"
              using False inv by (intro give_dose_inv) auto
            show ?thesis
            proof (cases "count_unit c (choice aff (pick i)) ?h1")
              case (Inl e)
              with True Inr ne Some False i1 show ?thesis by (simp add: Let_def)
            next
              case cu: (Inr h')
              from count_unit_inv [OF cu i1] have "resource_invariant (ctry h' k)" .
              from IH [OF this] True Inr ne Some False cu show ?thesis by (simp add: Let_def)
            qed
          qed
        qed
      qed
    qed
  qed
qed

lemma initial_vaccination_inv:
  "resource_invariant (ctry h k) \<Longrightarrow>
   resource_invariant (ctry (snd (initial_vaccination c coin pick h)) k)"
  by (simp add: initial_vaccination_def initial_vaccination_loop_inv)

text \<open>
  C4. Treatment allocation (with its hospitalisation), the daily vaccination campaign,
  the initial vaccination and the disease step each preserve, for every country, the
  resource invariant: occupancy at most the hospital capacity, treatments given today at
  most the daily maximum, and a non-negative remaining budget. This also holds when the
  operation stops on an error.
\<close>

theorem operations_preserve_resource_invariant:
  assumes "resource_invariant (ctry h k)"
  shows "resource_invariant (ctry (allocate_treatment_if_budget c p pick h) k)
       \<and> resource_invariant (ctry (snd (run_vaccination_campaign c day h)) k)
       \<and> resource_invariant (ctry (snd (initial_vaccination c coin vpick h)) k)
       \<and> resource_invariant (ctry (snd (infection_step p c day d h)) k)"
  using assms
  by (simp add: alloc_inv run_vaccination_campaign_inv initial_vaccination_inv infection_step_inv)

theorem operations_preserve_resource_invariant_witness:
  "resource_invariant (ctry example_heap 0)
   \<and> resource_invariant (ctry (allocate_treatment_if_budget 0 2 0 example_heap) 0)
   \<and> resource_invariant (ctry (snd (run_vaccination_campaign 0 10 example_heap)) 0)
   \<and> resource_invariant (ctry (snd (initial_vaccination 0 (\<lambda>_. 0) (\<lambda>_. 0) example_heap)) 0)
   \<and> resource_invariant (ctry (snd (infection_step 2 0 10 example_draws example_heap)) 0)"
proof -
  have h: "resource_invariant (ctry example_heap 0)"
    by (simp add: resource_invariant_def example_defs)
  from operations_preserve_resource_invariant [OF h, of 0 2 0 10 "\<lambda>_. 0" "\<lambda>_. 0" example_draws] h
  show ?thesis by simp
qed

section \<open>Disease step: state machine\<close>

lemma infect_contacts_state:
  "state (pat (snd (infect_contacts p c day d i ts h)) q) = state (pat h q)
   \<or> (state (pat h q) = healthy \<and> state (pat (snd (infect_contacts p c day d i ts h)) q) = infected)"
proof (induction ts arbitrary: i h)
  case Nil
  then show ?case by simp
next
  case (Cons t ts)
  show ?case
  proof (cases "transmission_prob h c p t day")
    case (Inl e)
    then show ?thesis by simp
  next
    case (Inr prob)
    define h' where "h' = (if infect_draws d i < prob then
                (if state (pat h t) = healthy then
                   allocate_treatment_if_budget c t (target_treatment_draws d i)
                     (upd_pat t
                        (\<lambda>q. q\<lparr>state := infected, days_infected := 0,
                                infectious_period :=
                                  Some (randint (fst INFECTIOUS_PERIOD_RANGE) (snd INFECTIOUS_PERIOD_RANGE)
                                          (target_period_draws d i))\<rparr>) h)
                 else h)
              else h)"
    have eq: "infect_contacts p c day d i (t # ts) h = infect_contacts p c day d (Suc i) ts h'"
      using Inr by (simp add: h'_def Let_def)
    have one: "state (pat h' q) = state (pat h q)
        \<or> (state (pat h q) = healthy \<and> state (pat h' q) = infected)"
      by (auto simp add: h'_def alloc_pat_fields)
    from Cons.IH [of "Suc i" h'] one show ?thesis unfolding eq by auto
  qed
qed

lemma release_slot_state [simp]: "state (pat (release_slot p c h) q) = state (pat h q)"
  by (simp add: release_slot_def)

lemma progress_state:
  "state (pat (progress p c d hr period h) q) = state (pat h q)
   \<or> (q = p \<and> state (pat (progress p c d hr period h) q) \<in> {recovered, dead})"
  by (auto simp add: progress_def Let_def)

lemma infection_step_transitions:
  "state (pat (snd (infection_step p c day d h)) q) = state (pat h q)
   \<or> (state (pat h q) = healthy \<and> state (pat (snd (infection_step p c day d h)) q) = infected)
   \<or> (state (pat h q) = infected
       \<and> state (pat (snd (infection_step p c day d h)) q) \<in> {recovered, dead})"
proof (cases "state (pat h p) = infected")
  case False
  then show ?thesis by (simp add: infection_step_noop)
next
  case True
  from infection_step_infected [OF True, of c day d] obtain period cs e h2 where
    ic: "infect_contacts p c day d 0 cs (upd_pat p (\<lambda>q. q\<lparr>infectious_period := Some period\<rparr>) h) = (e, h2)"
    and r: "infection_step p c day d h = (e, h2) \<and> e \<noteq> None
            \<or> infection_step p c day d h = (None, progress p c d (high_risk (pat h p)) period h2) \<and> e = None"
    by blast
  let ?h1 = "upd_pat p (\<lambda>q. q\<lparr>infectious_period := Some period\<rparr>) h"
  have s1: "state (pat ?h1 q) = state (pat h q)" by simp
  from infect_contacts_state [of p c day d 0 cs ?h1 q] ic
  have s2: "state (pat h2 q) = state (pat h q)
            \<or> (state (pat h q) = healthy \<and> state (pat h2 q) = infected)"
    by (simp only: s1 snd_conv)
  from r show ?thesis
  proof
    assume "infection_step p c day d h = (e, h2) \<and> e \<noteq> None"
    with s2 show ?thesis by auto
  next
    assume a: "infection_step p c day d h = (None, progress p c d (high_risk (pat h p)) period h2) \<and> e = None"
    from progress_state [of p c d "high_risk (pat h p)" period h2 q]
    show ?thesis
    proof
      assume "state (pat (progress p c d (high_risk (pat h p)) period h2) q) = state (pat h2 q)"
      with a s2 show ?thesis by auto
    next
      assume b: "q = p \<and> state (pat (progress p c d (high_risk (pat h p)) period h2) q) \<in> {recovered, dead}"
      with True a show ?thesis by auto
    qed
  qed
qed

text \<open>
  C3. The daily disease step changes nothing when the patient is healthy, recovered or
  dead. For every patient \<open>q\<close> of the heap, its state after a step is its state before,
  or it went from healthy to infected, or from infected to recovered or dead; so a
  recovered or dead patient stays as it is. In the loop over the contacts, whatever
  the list of contacts, a patient is set to infected only if it is healthy at that
  moment: a patient that was not healthy keeps its state.
\<close>

theorem disease_state_machine:
  "(state (pat h p) \<in> {healthy, recovered, dead} \<longrightarrow> infection_step p c day d h = (None, h))
   \<and> (state (pat (snd (infection_step p c day d h)) q) = state (pat h q)
       \<or> (state (pat h q) = healthy \<and> state (pat (snd (infection_step p c day d h)) q) = infected)
       \<or> (state (pat h q) = infected
           \<and> state (pat (snd (infection_step p c day d h)) q) \<in> {recovered, dead}))
   \<and> (state (pat h q) \<in> {recovered, dead} \<longrightarrow>
         state (pat (snd (infection_step p c day d h)) q) = state (pat h q))
   \<and> (state (pat h q) \<noteq> healthy \<longrightarrow>
         state (pat (snd (infect_contacts p c day d i ts h)) q) = state (pat h q))"
proof -
  have a: "state (pat h p) \<in> {healthy, recovered, dead} \<longrightarrow> infection_step p c day d h = (None, h)"
    by (auto simp add: infection_step_noop)
  note b = infection_step_transitions [of p c day d h q]
  from b have c: "state (pat h q) \<in> {recovered, dead} \<longrightarrow>
         state (pat (snd (infection_step p c day d h)) q) = state (pat h q)" by auto
  from infect_contacts_state [of p c day d i ts h q]
  have e: "state (pat h q) \<noteq> healthy \<longrightarrow>
         state (pat (snd (infect_contacts p c day d i ts h)) q) = state (pat h q)" by auto
  from a b c e show ?thesis by blast
qed

theorem disease_state_machine_witness:
  "state (pat example_heap 1) \<in> {healthy, recovered, dead}
   \<and> infection_step 1 0 2 example_draws example_heap = (None, example_heap)
   \<and> state (pat (upd_pat 1 (\<lambda>q. q\<lparr>state := dead\<rparr>) (upd_pat 0 (\<lambda>q. q\<lparr>state := infected\<rparr>) example_heap)) 1)
        \<in> {recovered, dead}
   \<and> state (pat (snd (infection_step 0 0 2 example_draws
        (upd_pat 1 (\<lambda>q. q\<lparr>state := dead\<rparr>) (upd_pat 0 (\<lambda>q. q\<lparr>state := infected\<rparr>) example_heap)))) 1) = dead
   \<and> state (pat (upd_pat 1 (\<lambda>q. q\<lparr>state := dead\<rparr>) (upd_pat 0 (\<lambda>q. q\<lparr>state := infected\<rparr>) example_heap)) 1)
        \<noteq> healthy
   \<and> state (pat (snd (infect_contacts 0 0 2 example_draws 0 [1, 2]
        (upd_pat 1 (\<lambda>q. q\<lparr>state := dead\<rparr>) (upd_pat 0 (\<lambda>q. q\<lparr>state := infected\<rparr>) example_heap)))) 1) = dead"
  using disease_state_machine [of example_heap 1 0 2 example_draws 1 0 "[]"]
    disease_state_machine [of "upd_pat 1 (\<lambda>q. q\<lparr>state := dead\<rparr>) (upd_pat 0 (\<lambda>q. q\<lparr>state := infected\<rparr>) example_heap)"
      0 0 2 example_draws 1 0 "[1, 2]"]
  by (simp add: example_defs)

section \<open>Vaccination campaign\<close>

lemma sort_reverse_set [simp]: "set (sort_reverse f xs) = set xs"
  by (simp add: sort_reverse_def)

lemma sort_reverse_length [simp]: "length (sort_reverse f xs) = length xs"
  by (simp add: sort_reverse_def)

lemma sort_reverse_distinct [simp]: "distinct (sort_reverse f xs) = distinct xs"
  by (simp add: sort_reverse_def)

lemma sort_reverse_descending: "sorted (rev (map f (sort_reverse f xs)))"
  by (simp add: sort_reverse_def rev_map)

lemma sort_reverse_stable:
  "filter (\<lambda>y. f y = k) (sort_reverse f xs) = filter (\<lambda>y. f y = k) xs"
  by (simp add: sort_reverse_def rev_filter [symmetric] sort_key_stable)

lemma count_unit_Some:
  "vaccine_units_given (ctry h c) v = Some m \<Longrightarrow>
   count_unit c v h = Inr (upd_ctry c (\<lambda>k. k\<lparr>vaccine_units_given := (vaccine_units_given k)(v \<mapsto> m + 1)\<rparr>) h)"
  by (simp add: count_unit_def)

lemma vaccinate_loop_all:
  assumes "distinct ps" "\<forall>p\<in>set ps. \<not> vaccinated (pat h p)"
    and "u * int (length ps) \<le> budget_remaining (ctry h c)" "0 < u"
    and "vaccine_units_given (ctry h c) mv \<noteq> None"
  shows "\<exists>h'. vaccinate_loop c mv u ps h = (None, h')
       \<and> budget_remaining (ctry h' c) = budget_remaining (ctry h c) - u * int (length ps)
       \<and> budget_spent_vaccines (ctry h' c) = budget_spent_vaccines (ctry h c) + u * int (length ps)
       \<and> vaccinated_today (ctry h' c) = vaccinated_today (ctry h c) + int (length ps)
       \<and> (\<forall>q. pat h' q = (if q \<in> set ps then (pat h q)\<lparr>vaccinated := True, vaccine_type := Some mv\<rparr>
                           else pat h q))"
  using assms
proof (induction ps arbitrary: h)
  case Nil
  then show ?case by simp
next
  case (Cons p ps)
  from Cons.prems(5) obtain m where m: "vaccine_units_given (ctry h c) mv = Some m" by auto
  let ?h1 = "upd_ctry c (\<lambda>k. k\<lparr>vaccinated_today := vaccinated_today k + 1\<rparr>) (give_dose c p mv u h)"
  let ?h2 = "upd_ctry c (\<lambda>k. k\<lparr>vaccine_units_given := (vaccine_units_given k)(mv \<mapsto> m + 1)\<rparr>) ?h1"
  have m1: "vaccine_units_given (ctry ?h1 c) mv = Some m"
    using m by (simp add: give_dose_def)
  have cu: "count_unit c mv ?h1 = Inr ?h2" using m1 by (rule count_unit_Some)
  have len: "u * int (length ps) + u \<le> budget_remaining (ctry h c)"
    using Cons.prems(3) by (simp add: algebra_simps)
  have "0 \<le> u * int (length ps)" using Cons.prems(4) by simp
  with len have b: "\<not> budget_remaining (ctry h c) < u" by linarith
  have nv: "\<not> vaccinated (pat h p)" using Cons.prems(2) by simp
  have step: "vaccinate_loop c mv u (p # ps) h = vaccinate_loop c mv u ps ?h2"
    using b nv cu by (simp add: Let_def)
  have p2: "\<forall>q\<in>set ps. \<not> vaccinated (pat ?h2 q)"
    using Cons.prems(1,2) by (auto simp add: give_dose_def)
  have b2: "u * int (length ps) \<le> budget_remaining (ctry ?h2 c)"
    using len by (simp add: give_dose_def)
  have c2: "vaccine_units_given (ctry ?h2 c) mv \<noteq> None" by simp
  from Cons.prems(1) have d2: "distinct ps" by simp
  from Cons.IH [OF d2 p2 b2 Cons.prems(4) c2] obtain h' where
    r: "vaccinate_loop c mv u ps ?h2 = (None, h')"
    and br: "budget_remaining (ctry h' c) = budget_remaining (ctry ?h2 c) - u * int (length ps)"
    and bs: "budget_spent_vaccines (ctry h' c) = budget_spent_vaccines (ctry ?h2 c) + u * int (length ps)"
    and vt: "vaccinated_today (ctry h' c) = vaccinated_today (ctry ?h2 c) + int (length ps)"
    and pt: "\<forall>q. pat h' q = (if q \<in> set ps then (pat ?h2 q)\<lparr>vaccinated := True, vaccine_type := Some mv\<rparr>
                           else pat ?h2 q)"
    by blast
  have pp: "\<forall>q. pat h' q = (if q \<in> set (p # ps) then (pat h q)\<lparr>vaccinated := True, vaccine_type := Some mv\<rparr>
                           else pat h q)"
    using pt Cons.prems(1) by (auto simp add: give_dose_def)
  have "vaccinate_loop c mv u (p # ps) h = (None, h')" using step r by simp
  moreover have "budget_remaining (ctry h' c) = budget_remaining (ctry h c) - u * int (length (p # ps))"
    using br by (simp add: give_dose_def algebra_simps)
  moreover have "budget_spent_vaccines (ctry h' c) = budget_spent_vaccines (ctry h c) + u * int (length (p # ps))"
    using bs by (simp add: give_dose_def algebra_simps)
  moreover have "vaccinated_today (ctry h' c) = vaccinated_today (ctry h c) + int (length (p # ps))"
    using vt by (simp add: give_dose_def)
  ultimately show ?case using pp by blast
qed


section \<open>Virus seeding\<close>

lemma remove_nth_set:
  "i < length xs \<Longrightarrow> set (remove_nth i xs) \<subseteq> set xs"
  by (auto dest: in_set_takeD in_set_dropD)

lemma remove_nth_length:
  "i < length xs \<Longrightarrow> length (remove_nth i xs) = length xs - 1"
  by auto

lemma remove_nth_distinct:
  assumes "distinct xs" "i < length xs"
  shows "distinct (remove_nth i xs) \<and> xs ! i \<notin> set (remove_nth i xs)"
proof -
  from assms(2) have "xs = take i xs @ xs ! i # drop (Suc i) xs" by (rule id_take_nth_drop)
  then have "distinct (take i xs @ xs ! i # drop (Suc i) xs)" using assms(1) by simp
  then show ?thesis by auto
qed

lemma sample_subset: "set (sample ds xs k) \<subseteq> set xs"
proof (induction k arbitrary: xs)
  case 0
  then show ?case by simp
next
  case (Suc k)
  show ?case
  proof (cases "xs = []")
    case True
    then show ?thesis by simp
  next
    case False
    then have i: "ds k mod length xs < length xs" by simp
    from Suc.IH [of "remove_nth (ds k mod length xs) xs"] remove_nth_set [OF i]
    have "set (sample ds (remove_nth (ds k mod length xs) xs) k) \<subseteq> set xs" by blast
    with False i show ?thesis by (simp add: Let_def del: remove_nth.simps)
  qed
qed

lemma sample_distinct: "distinct xs \<Longrightarrow> distinct (sample ds xs k)"
proof (induction k arbitrary: xs)
  case 0
  then show ?case by simp
next
  case (Suc k)
  show ?case
  proof (cases "xs = []")
    case True
    then show ?thesis by simp
  next
    case False
    then have i: "ds k mod length xs < length xs" by simp
    let ?r = "remove_nth (ds k mod length xs) xs"
    from remove_nth_distinct [OF Suc.prems i]
    have d: "distinct ?r" and n: "xs ! (ds k mod length xs) \<notin> set ?r" by simp_all
    from sample_subset [of ds ?r k] n have "xs ! (ds k mod length xs) \<notin> set (sample ds ?r k)"
      by blast
    with Suc.IH [OF d] False show ?thesis by (simp add: Let_def del: remove_nth.simps)
  qed
qed

lemma sample_length: "k \<le> length xs \<Longrightarrow> length (sample ds xs k) = k"
proof (induction k arbitrary: xs)
  case 0
  then show ?case by simp
next
  case (Suc k)
  then have ne: "xs \<noteq> []" by auto
  then have i: "ds k mod length xs < length xs" by simp
  let ?r = "remove_nth (ds k mod length xs) xs"
  have "k \<le> length ?r" using Suc.prems remove_nth_length [OF i] by simp
  from Suc.IH [OF this] ne show ?case by (simp add: Let_def del: remove_nth.simps)
qed

lemma randint_period:
  "4 \<le> randint (fst INFECTIOUS_PERIOD_RANGE) (snd INFECTIOUS_PERIOD_RANGE) d
   \<and> randint (fst INFECTIOUS_PERIOD_RANGE) (snd INFECTIOUS_PERIOD_RANGE) d \<le> 7"
proof -
  have "d mod 4 < 4" by simp
  then show ?thesis by (simp add: randint_def INFECTIOUS_PERIOD_RANGE_def)
qed

lemma alloc_counts:
  "current_hospitalized (ctry (allocate_treatment_if_budget c p pick h) c)
     = current_hospitalized (ctry h c)
       + (if hospitalized (pat (allocate_treatment_if_budget c p pick h) p) then 1 else 0)"
  "treatments_given_today (ctry (allocate_treatment_if_budget c p pick h) c)
     = treatments_given_today (ctry h c)
       + (if has_treatment (pat (allocate_treatment_if_budget c p pick h) p) then 1 else 0)"
  "budget_remaining (ctry (allocate_treatment_if_budget c p pick h) c)
     = budget_remaining (ctry h c)
       - (if has_treatment (pat (allocate_treatment_if_budget c p pick h) p) then TREATMENT_COST else 0)"
  by (auto simp add: allocate_treatment_if_budget_def Let_def deny_treatment_def)

lemma filter_count_sub:
  assumes "distinct xs" "distinct ys" "set ys \<subseteq> set xs" "\<forall>x\<in>set xs. P x \<longrightarrow> x \<in> set ys"
  shows "length (filter P xs) = length (filter P ys)"
proof -
  have "{x. P x} \<inter> set xs = {x. P x} \<inter> set ys" using assms(3,4) by auto
  then show ?thesis using assms(1,2) by (simp add: distinct_length_filter)
qed

lemma reset_roster_ctry [simp]: "ctry (fold (\<lambda>p h. upd_pat p reset h) ps h) = ctry h"
  by (induction ps arbitrary: h) simp_all

lemma reset_reset [simp]: "reset (reset q) = reset q"
  by (simp add: reset_def)

lemma reset_roster_pat:
  "pat (fold (\<lambda>p h. upd_pat p reset h) ps h) q = (if q \<in> set ps then reset (pat h q) else pat h q)"
  by (induction ps arbitrary: h) auto

lemma reset_all_ctry [simp]: "ctry (reset_all cs h) = ctry h"
  unfolding reset_all_def by (induction cs arbitrary: h) simp_all

lemma reset_all_pat:
  "pat (reset_all cs h) q =
     (if \<exists>c\<in>set cs. q \<in> set (patients (ctry h c)) then reset (pat h q) else pat h q)"
  unfolding reset_all_def
proof (induction cs arbitrary: h)
  case Nil
  then show ?case by simp
next
  case (Cons c cs)
  let ?h1 = "fold (\<lambda>p h. upd_pat p reset h) (patients (ctry h c)) h"
  have c1: "ctry ?h1 = ctry h" by simp
  show ?case
    by (simp add: Cons.IH [of ?h1] c1 reset_roster_pat)
qed

lemma seed_loop_effect:
  assumes "distinct ps"
  shows "(\<forall>q. q \<notin> set ps \<longrightarrow> pat (seed_loop italy pd td i ps h) q = pat h q)
    \<and> (\<forall>q\<in>set ps. state (pat (seed_loop italy pd td i ps h) q) = infected
          \<and> (\<exists>v. infectious_period (pat (seed_loop italy pd td i ps h) q) = Some v \<and> 4 \<le> v \<and> v \<le> 7))
    \<and> patients (ctry (seed_loop italy pd td i ps h) italy) = patients (ctry h italy)
    \<and> current_hospitalized (ctry (seed_loop italy pd td i ps h) italy)
        = current_hospitalized (ctry h italy)
          + int (length (filter (\<lambda>q. hospitalized (pat (seed_loop italy pd td i ps h) q)) ps))
    \<and> treatments_given_today (ctry (seed_loop italy pd td i ps h) italy)
        = treatments_given_today (ctry h italy)
          + int (length (filter (\<lambda>q. has_treatment (pat (seed_loop italy pd td i ps h) q)) ps))
    \<and> budget_remaining (ctry (seed_loop italy pd td i ps h) italy)
        = budget_remaining (ctry h italy)
          - TREATMENT_COST * int (length (filter (\<lambda>q. has_treatment (pat (seed_loop italy pd td i ps h) q)) ps))"
  using assms
proof (induction ps arbitrary: i h)
  case Nil
  then show ?case by simp
next
  case (Cons p ps)
  let ?v = "randint (fst INFECTIOUS_PERIOD_RANGE) (snd INFECTIOUS_PERIOD_RANGE) (pd i)"
  let ?h0 = "upd_pat p (\<lambda>q. q\<lparr>state := infected, infectious_period := Some ?v\<rparr>) h"
  let ?h1 = "allocate_treatment_if_budget italy p (td i) ?h0"
  let ?h' = "seed_loop italy pd td (Suc i) ps ?h1"
  have eq: "seed_loop italy pd td i (p # ps) h = ?h'" by simp
  from Cons.prems have d: "distinct ps" and pn: "p \<notin> set ps" by simp_all
  note IH = Cons.IH [OF d, of "Suc i" ?h1]
  note ih1 = IH [THEN conjunct1]
  note ih2 = IH [THEN conjunct2, THEN conjunct1]
  note ih3 = IH [THEN conjunct2, THEN conjunct2, THEN conjunct1]
  note ih4 = IH [THEN conjunct2, THEN conjunct2, THEN conjunct2, THEN conjunct1]
  note ih5 = IH [THEN conjunct2, THEN conjunct2, THEN conjunct2, THEN conjunct2, THEN conjunct1]
  note ih6 = IH [THEN conjunct2, THEN conjunct2, THEN conjunct2, THEN conjunct2, THEN conjunct2]
  from ih1 pn have pp: "pat ?h' p = pat ?h1 p" by blast
  have st: "state (pat ?h1 p) = infected" "infectious_period (pat ?h1 p) = Some ?v"
    by (simp_all add: alloc_pat_fields)
  have other: "\<And>q. q \<noteq> p \<Longrightarrow> pat ?h1 q = pat h q" by (simp add: alloc_frame_pat)
  have a: "\<forall>q. q \<notin> set (p # ps) \<longrightarrow> pat ?h' q = pat h q"
    using ih1 other by auto
  have b: "\<forall>q\<in>set (p # ps). state (pat ?h' q) = infected
          \<and> (\<exists>v. infectious_period (pat ?h' q) = Some v \<and> 4 \<le> v \<and> v \<le> 7)"
    using ih2 pp st randint_period [of "pd i"] by auto
  have c: "patients (ctry ?h' italy) = patients (ctry h italy)"
    using ih3 by (simp add: alloc_ctry_fields)
  have c1: "current_hospitalized (ctry ?h1 italy) = current_hospitalized (ctry h italy)
          + (if hospitalized (pat ?h1 p) then 1 else 0)"
    using alloc_counts(1) [of italy p "td i" ?h0] by simp
  have c2: "treatments_given_today (ctry ?h1 italy) = treatments_given_today (ctry h italy)
          + (if has_treatment (pat ?h1 p) then 1 else 0)"
    using alloc_counts(2) [of italy p "td i" ?h0] by simp
  have c3: "budget_remaining (ctry ?h1 italy) = budget_remaining (ctry h italy)
          - (if has_treatment (pat ?h1 p) then TREATMENT_COST else 0)"
    using alloc_counts(3) [of italy p "td i" ?h0] by simp
  have e: "current_hospitalized (ctry ?h' italy) = current_hospitalized (ctry h italy)
          + int (length (filter (\<lambda>q. hospitalized (pat ?h' q)) (p # ps)))"
    unfolding ih4 c1 by (simp add: pp)
  have f: "treatments_given_today (ctry ?h' italy) = treatments_given_today (ctry h italy)
          + int (length (filter (\<lambda>q. has_treatment (pat ?h' q)) (p # ps)))"
    unfolding ih5 c2 by (simp add: pp)
  have g: "budget_remaining (ctry ?h' italy) = budget_remaining (ctry h italy)
          - TREATMENT_COST * int (length (filter (\<lambda>q. has_treatment (pat ?h' q)) (p # ps)))"
    unfolding ih6 c3 by (simp add: pp algebra_simps)
  from a b c e f g show ?case unfolding eq by blast
qed


lemma seed_loop_patients [simp]:
  "patients (ctry (seed_loop italy pd td i ps h) k) = patients (ctry h k)"
  by (induction ps arbitrary: i h) (simp_all add: alloc_ctry_fields)

lemma py_int_frac:
  "py_int (real n * INITIAL_INFECTED_FRAC) = \<lfloor>real n * INITIAL_INFECTED_FRAC\<rfloor>
   \<and> nat \<lfloor>real n * INITIAL_INFECTED_FRAC\<rfloor> \<le> n"
proof -
  have nn: "0 \<le> real n * INITIAL_INFECTED_FRAC" by (simp add: INITIAL_INFECTED_FRAC_def)
  have "real_of_int \<lfloor>real n * INITIAL_INFECTED_FRAC\<rfloor> \<le> real n * INITIAL_INFECTED_FRAC"
    by (rule of_int_floor_le)
  also have "\<dots> \<le> real n" by (simp add: INITIAL_INFECTED_FRAC_def)
  finally have "\<lfloor>real n * INITIAL_INFECTED_FRAC\<rfloor> \<le> int n" by linarith
  then have "nat \<lfloor>real n * INITIAL_INFECTED_FRAC\<rfloor> \<le> n" by linarith
  with nn show ?thesis by (simp add: py_int_def)
qed

section \<open>Baseline death probability\<close>

text \<open>
  Rounding to a double: once a positive \<open>x\<close> is scaled by \<open>2 ^ k\<close> into the range of
  53-bit significands, \<open>round64 x\<close> is that significand, rounded to the nearest integer
  with ties to even, scaled back.
\<close>

lemma scale_up_norm:
  "2 ^ 52 \<le> m * 2 ^ k \<Longrightarrow> m * 2 ^ k < 2 ^ 53 \<Longrightarrow> k \<le> n \<Longrightarrow>
   scale_up n m e = (m * 2 ^ k, e - int k)"
proof (induction k arbitrary: n m e)
  case 0
  then show ?case by (cases n) simp_all
next
  case (Suc k)
  from Suc.prems(3) obtain n' where n: "n = Suc n'" and kn: "k \<le> n'" by (cases n) simp_all
  have lt: "m < 2 ^ 52"
  proof (cases "m < 0")
    case True
    then show ?thesis by (smt (verit) zero_less_power)
  next
    case False
    have "(1::real) \<le> 2 ^ k" by simp
    with False have "m * 1 \<le> m * 2 ^ k" by (intro mult_left_mono) simp_all
    with Suc.prems(2) show ?thesis by simp
  qed
  have a: "2 ^ 52 \<le> (m * 2) * 2 ^ k" "(m * 2) * 2 ^ k < 2 ^ 53"
    using Suc.prems(1,2) by (simp_all add: mult.assoc)
  from Suc.IH [OF a kn] lt show ?case
    by (simp add: n mult.assoc)
qed

lemma scale_down_norm: "m < 2 ^ 53 \<Longrightarrow> scale_down n m e = (m, e)"
  by (cases n) simp_all

lemma round64_scaled:
  assumes "2 ^ 52 \<le> x * 2 ^ k" "x * 2 ^ k < 2 ^ 53" "k \<le> 1100"
  shows "round64 x = of_int (round_half_even (x * 2 ^ k)) / 2 ^ k"
proof -
  have pos: "0 < x"
  proof (rule ccontr)
    assume "\<not> 0 < x"
    then have "x * 2 ^ k \<le> 0" by (simp add: mult_le_0_iff)
    with assms(1) show False by (smt (verit) zero_less_power)
  qed
  have su: "scale_up 1100 x 0 = (x * 2 ^ k, - int k)"
    using scale_up_norm [OF assms, of 0] by simp
  show ?thesis
    using pos by (simp add: round64_def su scale_down_norm [OF assms(2)] Let_def)
qed

text \<open>The doubles met on the way, each written as a 53-bit significand over a power of two.\<close>

lemma f_b: "round64 0.02 = 5764607523034235 / 2 ^ 58"
  by (rule trans [OF round64_scaled [where k = 58]]) (simp_all add: round_half_even_def Let_def)

lemma f_m: "round64 1.15 = 5179139571476070 / 2 ^ 52"
  by (rule trans [OF round64_scaled [where k = 52]]) (simp_all add: round_half_even_def Let_def)

lemma f_bm: "fmul (round64 0.02) (round64 1.15) = 6629298651489370 / 2 ^ 58"
  unfolding f_b f_m
  unfolding fmul_def
  by (rule trans [OF round64_scaled [where k = 58]]) (simp_all add: round_half_even_def Let_def)

lemma f_bmr: "fmul (fmul (round64 0.02) (round64 1.15)) 2 = 6629298651489370 / 2 ^ 57"
  unfolding f_bm
  unfolding fmul_def
  by (rule trans [OF round64_scaled [where k = 57]]) (simp_all add: round_half_even_def Let_def)

lemma f_a2: "fmul (round64 0.02) 2 = 5764607523034235 / 2 ^ 57"
  unfolding f_b
  unfolding fmul_def
  by (rule trans [OF round64_scaled [where k = 57]]) (simp_all add: round_half_even_def Let_def)

lemma f_a2r: "fmul (fmul (round64 0.02) 2) 2 = 5764607523034235 / 2 ^ 56"
  unfolding f_a2
  unfolding fmul_def
  by (rule trans [OF round64_scaled [where k = 56]]) (simp_all add: round_half_even_def Let_def)

lemma f_a2m: "fmul (fmul (round64 0.02) 2) (round64 1.15) = 6629298651489370 / 2 ^ 57"
  unfolding f_a2 f_m
  unfolding fmul_def
  by (rule trans [OF round64_scaled [where k = 57]]) (simp_all add: round_half_even_def Let_def)

lemma f_a2mr: "fmul (fmul (fmul (round64 0.02) 2) (round64 1.15)) 2 = 6629298651489370 / 2 ^ 56"
  unfolding f_a2m
  unfolding fmul_def
  by (rule trans [OF round64_scaled [where k = 56]]) (simp_all add: round_half_even_def Let_def)

lemma f_a3: "fmul (round64 0.02) 3 = 8646911284551352 / 2 ^ 57"
  unfolding f_b
  unfolding fmul_def
  by (rule trans [OF round64_scaled [where k = 57]]) (simp_all add: round_half_even_def Let_def)

lemma f_a3r: "fmul (fmul (round64 0.02) 3) 2 = 8646911284551352 / 2 ^ 56"
  unfolding f_a3
  unfolding fmul_def
  by (rule trans [OF round64_scaled [where k = 56]]) (simp_all add: round_half_even_def Let_def)

lemma f_a3m: "fmul (fmul (round64 0.02) 3) (round64 1.15) = 4971973988617027 / 2 ^ 56"
  unfolding f_a3 f_m
  unfolding fmul_def
  by (rule trans [OF round64_scaled [where k = 56]]) (simp_all add: round_half_even_def Let_def)

lemma f_a3mr: "fmul (fmul (fmul (round64 0.02) 3) (round64 1.15)) 2 = 4971973988617027 / 2 ^ 55"
  unfolding f_a3m
  unfolding fmul_def
  by (rule trans [OF round64_scaled [where k = 55]]) (simp_all add: round_half_even_def Let_def)

lemma f_bm3: "fmul (fmul (round64 0.02) (round64 1.15)) 3 = 4971973988617028 / 2 ^ 56"
  unfolding f_bm
  unfolding fmul_def
  by (rule trans [OF round64_scaled [where k = 56]]) (simp_all add: round_half_even_def Let_def)

lemma f_bm3r: "fmul (fmul (fmul (round64 0.02) (round64 1.15)) 3) 2 = 4971973988617028 / 2 ^ 55"
  unfolding f_bm3
  unfolding fmul_def
  by (rule trans [OF round64_scaled [where k = 55]]) (simp_all add: round_half_even_def Let_def)

lemma f_012: "round64 0.12 = 8646911284551352 / 2 ^ 56"
  by (rule trans [OF round64_scaled [where k = 56]]) (simp_all add: round_half_even_def Let_def)

lemma f_0138: "round64 0.138 = 4971973988617028 / 2 ^ 55"
  by (rule trans [OF round64_scaled [where k = 55]]) (simp_all add: round_half_even_def Let_def)

lemma death_probability_chain:
  "death_probability p =
     (if age p > 60 then (if sex p = SexM
        then (if respiratory_disease p then fmul (fmul (fmul (round64 0.02) 3) (round64 1.15)) 2 else fmul (fmul (round64 0.02) 3) (round64 1.15))
        else (if respiratory_disease p then fmul (fmul (round64 0.02) 3) 2 else fmul (round64 0.02) 3))
      else if age p > 40 then (if sex p = SexM
        then (if respiratory_disease p then fmul (fmul (fmul (round64 0.02) 2) (round64 1.15)) 2 else fmul (fmul (round64 0.02) 2) (round64 1.15))
        else (if respiratory_disease p then fmul (fmul (round64 0.02) 2) 2 else fmul (round64 0.02) 2))
      else (if sex p = SexM
        then (if respiratory_disease p then fmul (fmul (round64 0.02) (round64 1.15)) 2 else fmul (round64 0.02) (round64 1.15))
        else (if respiratory_disease p then fmul (round64 0.02) 2 else round64 0.02)))"
  by (simp add: death_probability_def Let_def)

lemma death_probability_value:
  "death_probability p =
     (if age p > 60 then (if sex p = SexM
        then (if respiratory_disease p then 4971973988617027 / 2 ^ 55 else 4971973988617027 / 2 ^ 56)
        else (if respiratory_disease p then 8646911284551352 / 2 ^ 56 else 8646911284551352 / 2 ^ 57))
      else if age p > 40 then (if sex p = SexM
        then (if respiratory_disease p then 6629298651489370 / 2 ^ 56 else 6629298651489370 / 2 ^ 57)
        else (if respiratory_disease p then 5764607523034235 / 2 ^ 56 else 5764607523034235 / 2 ^ 57))
      else (if sex p = SexM
        then (if respiratory_disease p then 6629298651489370 / 2 ^ 57 else 6629298651489370 / 2 ^ 58)
        else (if respiratory_disease p then 5764607523034235 / 2 ^ 57 else 5764607523034235 / 2 ^ 58)))"
  unfolding death_probability_chain
  apply (simp only: f_a3mr f_a2mr)
  apply (simp only: f_a3m f_a3r f_a2m f_a2r f_bmr)
  apply (simp only: f_a3 f_a2 f_bm)
  apply (simp only: f_b)
  done

text \<open>
  C8 (as the code has it). The baseline death probability is computed in double
  precision: starting from the double 0.02, the result is multiplied by 3 above 60
  years, else by 2 above 40, then by the double 1.15 for a male patient, then by 2 with
  a respiratory disease, each product rounded to the nearest double. The twelve possible
  results are listed. Each lies within \<open>2\<^sup>-\<^sup>5\<^sup>5\<close> of the exact product of the
  factors. For every patient aged 70, female, with a respiratory disease the result is
  the double \<open>0.02 * 3 * 2\<close>, which is the double 0.12.
\<close>

theorem death_probability_float:
  "death_probability p =
     (if age p > 60 then (if sex p = SexM
        then (if respiratory_disease p then 4971973988617027 / 2 ^ 55 else 4971973988617027 / 2 ^ 56)
        else (if respiratory_disease p then 8646911284551352 / 2 ^ 56 else 8646911284551352 / 2 ^ 57))
      else if age p > 40 then (if sex p = SexM
        then (if respiratory_disease p then 6629298651489370 / 2 ^ 56 else 6629298651489370 / 2 ^ 57)
        else (if respiratory_disease p then 5764607523034235 / 2 ^ 56 else 5764607523034235 / 2 ^ 57))
      else (if sex p = SexM
        then (if respiratory_disease p then 6629298651489370 / 2 ^ 57 else 6629298651489370 / 2 ^ 58)
        else (if respiratory_disease p then 5764607523034235 / 2 ^ 57 else 5764607523034235 / 2 ^ 58)))
   \<and> \<bar>death_probability p -
        0.02 * (if age p > 60 then 3 else if age p > 40 then 2 else 1)
             * (if sex p = SexM then 1.15 else 1)
             * (if respiratory_disease p then 2 else 1)\<bar> < 1 / 2 ^ 55
   \<and> death_probability (p\<lparr>age := 70, respiratory_disease := True, sex := SexF\<rparr>)
       = fmul (fmul (round64 0.02) 3) 2
   \<and> death_probability (p\<lparr>age := 70, respiratory_disease := True, sex := SexF\<rparr>)
       = round64 0.12"
proof (intro conjI)
  show "death_probability p =
     (if age p > 60 then (if sex p = SexM
        then (if respiratory_disease p then 4971973988617027 / 2 ^ 55 else 4971973988617027 / 2 ^ 56)
        else (if respiratory_disease p then 8646911284551352 / 2 ^ 56 else 8646911284551352 / 2 ^ 57))
      else if age p > 40 then (if sex p = SexM
        then (if respiratory_disease p then 6629298651489370 / 2 ^ 56 else 6629298651489370 / 2 ^ 57)
        else (if respiratory_disease p then 5764607523034235 / 2 ^ 56 else 5764607523034235 / 2 ^ 57))
      else (if sex p = SexM
        then (if respiratory_disease p then 6629298651489370 / 2 ^ 57 else 6629298651489370 / 2 ^ 58)
        else (if respiratory_disease p then 5764607523034235 / 2 ^ 57 else 5764607523034235 / 2 ^ 58)))"
    by (rule death_probability_value)
  show "\<bar>death_probability p -
        0.02 * (if age p > 60 then 3 else if age p > 40 then 2 else 1)
             * (if sex p = SexM then 1.15 else 1)
             * (if respiratory_disease p then 2 else 1)\<bar> < 1 / 2 ^ 55"
    by (simp add: death_probability_value)
  have v: "death_probability (p\<lparr>age := 70, respiratory_disease := True, sex := SexF\<rparr>)
             = 8646911284551352 / 2 ^ 56"
    by (simp add: death_probability_value)
  show "death_probability (p\<lparr>age := 70, respiratory_disease := True, sex := SexF\<rparr>)
       = fmul (fmul (round64 0.02) 3) 2"
    unfolding v f_a3r by simp
  show "death_probability (p\<lparr>age := 70, respiratory_disease := True, sex := SexF\<rparr>)
       = round64 0.12"
    unfolding v f_012 by simp
qed

text \<open>
  The result depends on the order of the multiplications, and is not the exact product:
  for a man of 70 with a respiratory disease the code computes
  \<open>((0.02 * 3) * 1.15) * 2\<close> in doubles, which is 0.13799999999999998, while
  \<open>((0.02 * 1.15) * 3) * 2\<close> in doubles is the double 0.138, one unit in the last place
  above; the exact product 0.138 is neither.
\<close>

theorem death_probability_order_dependent:
  "death_probability ((example_patient 0 70 True)\<lparr>sex := SexM\<rparr>)
      = fmul (fmul (fmul (round64 0.02) 3) (round64 1.15)) 2
   \<and> death_probability ((example_patient 0 70 True)\<lparr>sex := SexM\<rparr>) = 4971973988617027 / 2 ^ 55
   \<and> fmul (fmul (fmul (round64 0.02) (round64 1.15)) 3) 2 = 4971973988617028 / 2 ^ 55
   \<and> round64 0.138 = 4971973988617028 / 2 ^ 55
   \<and> death_probability ((example_patient 0 70 True)\<lparr>sex := SexM\<rparr>)
      \<noteq> fmul (fmul (fmul (round64 0.02) (round64 1.15)) 3) 2
   \<and> death_probability ((example_patient 0 70 True)\<lparr>sex := SexM\<rparr>) \<noteq> 0.02 * 3 * 1.15 * 2"
proof -
  have v: "death_probability ((example_patient 0 70 True)\<lparr>sex := SexM\<rparr>) = 4971973988617027 / 2 ^ 55"
    by (simp add: death_probability_value example_patient_def)
  show ?thesis
    unfolding v f_a3mr f_bm3r f_0138 by simp
qed

end
